theory Spec2Isabelle
  imports Complex_Main "HOL-Library.Word"
begin

section \<open>Exceptions, warnings and results\<close>

text \<open>
  Every \<open>raise\<close> of the Python source is a value of \<open>pyerror\<close>; a function that can
  raise returns \<open>pyerror + 'a\<close> with \<open>Inl\<close> for the exception. The constructors keep the
  Python exception class and, where the source builds a message from values, those values.
  A \<open>warnings.warn\<close> call is an entry of a returned warning list.
\<close>

datatype pyerror =
    ValueError_unknown_provider string
  | ValueError_zoom_below_min string int int
  | ValueError_zoom_above_max string int int
  | ValueError_math_domain
  | ValueError_format
  | ZeroDivisionError
  | KeyError string
  | IndexError
  | ImportError
  | AttributeError
  | Exception_fetch_failed string int string
  | UnidentifiedImageError
  | ConnectionError
  | ResizeError

datatype warning =
    UserWarning_api_key string string
  | UserWarning_supersample string int int int int int

text \<open>The two \<open>ValueError\<close>s of \<open>_validate_zoom_level\<close>: the base zoom is out of range.\<close>

fun is_zoom_out_of_range :: "pyerror \<Rightarrow> bool" where
  "is_zoom_out_of_range (ValueError_zoom_below_min _ _ _) = True"
| "is_zoom_out_of_range (ValueError_zoom_above_max _ _ _) = True"
| "is_zoom_out_of_range _ = False"

text \<open>A loop whose body can raise: the first exception ends it.\<close>

fun traverse :: "('a \<Rightarrow> 'e + 'b) \<Rightarrow> 'a list \<Rightarrow> 'e + 'b list" where
  "traverse f [] = Inr []"
| "traverse f (a # as) =
     (case f a of
        Inl e \<Rightarrow> Inl e
      | Inr b \<Rightarrow> (case traverse f as of Inl e \<Rightarrow> Inl e | Inr bs \<Rightarrow> Inr (b # bs)))"

section \<open>Python strings\<close>

text \<open>
  \<open>str.lower\<close>, on the ASCII letters. The names the result is compared with are ASCII
  and have no \<open>k\<close>, the one ASCII letter that is the lower case of a character outside
  ASCII; so a string with such a character equals none of them, lowered either way.
\<close>

definition lower_char :: "char \<Rightarrow> char" where
  "lower_char c =
     (case map_of (zip ''ABCDEFGHIJKLMNOPQRSTUVWXYZ'' ''abcdefghijklmnopqrstuvwxyz'') c of
        None \<Rightarrow> c
      | Some d \<Rightarrow> d)"

definition lower :: "string \<Rightarrow> string" where
  "lower s = map lower_char s"

text \<open>\<open>sub in s\<close> on strings.\<close>

fun str_in :: "string \<Rightarrow> string \<Rightarrow> bool" where
  "str_in sub [] = (sub = [])"
| "str_in sub (c # cs) = (take (length sub) (c # cs) = sub \<or> str_in sub cs)"

text \<open>Truthiness of a value that is \<open>None\<close> or a string, and Python's \<open>a or b\<close> on them.\<close>

definition truthy :: "string option \<Rightarrow> bool" where
  "truthy v = (case v of None \<Rightarrow> False | Some s \<Rightarrow> s \<noteq> [])"

definition py_or :: "string option \<Rightarrow> string option \<Rightarrow> string option" where
  "py_or a b = (if truthy a then a else b)"

text \<open>\<open>str(i)\<close> for an integer, as \<open>str.format\<close> renders a field.\<close>

fun digits_of :: "nat \<Rightarrow> string" where
  "digits_of n =
     (if n < 10 then [''0123456789'' ! n]
      else digits_of (n div 10) @ [''0123456789'' ! (n mod 10)])"

declare digits_of.simps [simp del]

definition str_int :: "int \<Rightarrow> string" where
  "str_int i = (if i < 0 then CHR ''-'' # digits_of (nat (- i)) else digits_of (nat i))"

text \<open>
  \<open>template.format(**kw)\<close> for templates with plain named fields, which is what the
  registry holds: \<open>{name}\<close> is replaced by the keyword's value (\<open>KeyError\<close> when there is
  none), \<open>{{\<close> and \<open>}}\<close> are literal braces, a lone \<open>}\<close> or an unclosed \<open>{\<close> is a
  \<open>ValueError\<close>. The second argument is the field name read so far.
\<close>

fun format_go :: "(string \<rightharpoonup> string) \<Rightarrow> string option \<Rightarrow> string \<Rightarrow> pyerror + string" where
  "format_go kw None [] = Inr []"
| "format_go kw (Some name) [] = Inl ValueError_format"
| "format_go kw None [c] =
     (if c = CHR ''{'' \<or> c = CHR ''}'' then Inl ValueError_format else Inr [c])"
| "format_go kw None (c # d # cs) =
     (if c = CHR ''{'' then
        (if d = CHR ''{'' then map_sum id ((#) c) (format_go kw None cs)
         else format_go kw (Some []) (d # cs))
      else if c = CHR ''}'' then
        (if d = CHR ''}'' then map_sum id ((#) c) (format_go kw None cs)
         else Inl ValueError_format)
      else map_sum id ((#) c) (format_go kw None (d # cs)))"
| "format_go kw (Some name) (c # cs) =
     (if c = CHR ''}'' then
        (case kw name of
           None \<Rightarrow> Inl (KeyError name)
         | Some v \<Rightarrow> map_sum id ((@) v) (format_go kw None cs))
      else format_go kw (Some (name @ [c])) cs)"

definition format :: "string \<Rightarrow> (string \<times> string) list \<Rightarrow> pyerror + string" where
  "format template kw = format_go (map_of kw) None template"

section \<open>Images\<close>

text \<open>
  A PIL image: its mode, its size \<open>(width, height)\<close> and its pixels in row-major order,
  as \<open>getdata\<close> lists them. The pixels are kept in their RGBA rendering, the values
  \<open>convert('RGBA')\<close> gives (alpha 255 for an RGB image), since every pixel the modelled
  code reads or writes belongs to an RGBA image; \<open>convert('RGBA')\<close> then sets the mode.
\<close>

type_synonym pixel = "8 word \<times> 8 word \<times> 8 word \<times> 8 word"

record image =
  im_mode :: string
  im_size :: "nat \<times> nat"
  im_data :: "pixel list"

datatype resample = NEAREST | BILINEAR | BICUBIC | LANCZOS

definition convert_RGBA :: "image \<Rightarrow> image" where
  "convert_RGBA img = img\<lparr>im_mode := ''RGBA''\<rparr>"

definition getdata :: "image \<Rightarrow> pixel list" where
  "getdata img = im_data img"

text \<open>
  \<open>putdata\<close> writes the sequence over the image from the upper left corner on. The one
  call of the source passes as many pixels as the image has.
\<close>

definition putdata :: "image \<Rightarrow> pixel list \<Rightarrow> image" where
  "putdata img new_data =
     img\<lparr>im_data := take (length (im_data img)) (new_data @ drop (length new_data) (im_data img))\<rparr>"

text \<open>\<open>Image.new('RGBA', (w, h))\<close>: every pixel is \<open>(0, 0, 0, 0)\<close>.\<close>

definition Image_new_RGBA :: "nat \<times> nat \<Rightarrow> image" where
  "Image_new_RGBA sz =
     \<lparr>im_mode = ''RGBA'', im_size = sz, im_data = replicate (fst sz * snd sz) (0, 0, 0, 0)\<rparr>"

definition getpixel :: "image \<Rightarrow> nat \<times> nat \<Rightarrow> pixel" where
  "getpixel img xy = im_data img ! (snd xy * fst (im_size img) + fst xy)"

text \<open>
  \<open>canvas.paste(im, (ox, oy))\<close> without a mask: the pixels of \<open>im\<close> replace those of the
  canvas in the box of \<open>im\<close>'s size at the offset, clipped to the canvas; nothing is blended.
\<close>

definition paste :: "image \<Rightarrow> image \<Rightarrow> nat \<times> nat \<Rightarrow> image" where
  "paste canvas im box =
     (let w = fst (im_size canvas); iw = fst (im_size im); ih = snd (im_size im);
          ox = fst box; oy = snd box
      in canvas\<lparr>im_data :=
           map (\<lambda>i. let x = i mod w; y = i div w
                     in if ox \<le> x \<and> x < ox + iw \<and> oy \<le> y \<and> y < oy + ih
                        then im_data im ! ((y - oy) * iw + (x - ox))
                        else im_data canvas ! i)
               [0..<length (im_data canvas)]\<rparr>)"

section \<open>The world outside the package\<close>

text \<open>
  What the code gets from outside: whether the optional imports of the module succeeded
  (\<open>requests\<close> and \<open>Image\<close> are \<open>None\<close> otherwise), the process environment, the HTTP
  client, PIL's decoder and \<open>resize\<close>, and cartopy's \<open>GoogleTiles.get_image\<close>. They are
  parameters: any outcome they can have is an outcome the model has.
\<close>

record world =
  Image_available :: bool
  environ :: "string \<rightharpoonup> string"
  requests_get :: "string \<Rightarrow> pyerror + (int \<times> 8 word list)"
  Image_open :: "8 word list \<Rightarrow> pyerror + image"
  Image_resize :: "image \<Rightarrow> int \<times> int \<Rightarrow> resample \<Rightarrow> pyerror + image"
  GoogleTiles_get_image ::
    "int \<times> int \<times> int \<Rightarrow> pyerror + (image \<times> (real \<times> real \<times> real \<times> real) \<times> string)"

text \<open>PIL's contract for \<open>resize\<close>: the image returned has the size asked for.\<close>

definition resize_contract :: "world \<Rightarrow> bool" where
  "resize_contract W =
     (\<forall>img w h f out. Image_resize W img (w, h) f = Inr out \<longrightarrow> im_size out = (nat w, nat h))"

section \<open>Provider configuration and the client\<close>

text \<open>
  One entry of the \<open>_PROVIDERS\<close> dictionary, with the keys the modelled functions read.
  A key the source reads with \<open>.get(key, default)\<close> is an option (\<open>None\<close>: the key is
  absent); \<open>special_handling\<close> is \<open>None\<close> or a directive name, as in the source.
\<close>

record provider_config =
  cfg_url_template :: "string option"
  cfg_tile_size :: nat
  cfg_requires_api_key :: bool
  cfg_api_env :: "string option"
  cfg_special_handling :: "string option"
  cfg_min_zoom :: "int option"
  cfg_max_zoom :: "int option"

text \<open>\<open>dict.get(key, default)\<close> on an optional key.\<close>

definition dict_get :: "'a option \<Rightarrow> 'a \<Rightarrow> 'a" where
  "dict_get v d = (case v of None \<Rightarrow> d | Some x \<Rightarrow> x)"

text \<open>\<open>RasterTileServer._PROVIDERS\<close>.\<close>

definition PROVIDERS :: "(string \<times> provider_config) list" where
  "PROVIDERS = [
    (''Stadia.StamenTerrain'', \<lparr>
       cfg_url_template = Some ''https://tiles.stadiamaps.com/tiles/stamen_terrain/{z}/{x}/{y}@2x.png?api_key={api_key}'',
       cfg_tile_size = 512, cfg_requires_api_key = True, cfg_api_env = None,
       cfg_special_handling = None,
       cfg_min_zoom = Some 0, cfg_max_zoom = Some 18 \<rparr>),
    (''Stadia.AlidadeSmooth'', \<lparr>
       cfg_url_template = Some ''https://tiles.stadiamaps.com/tiles/alidade_smooth/{z}/{x}/{y}@2x.png?api_key={api_key}'',
       cfg_tile_size = 512, cfg_requires_api_key = True, cfg_api_env = None,
       cfg_special_handling = None,
       cfg_min_zoom = Some 0, cfg_max_zoom = Some 20 \<rparr>),
    (''Esri.Terrain'', \<lparr>
       cfg_url_template = Some ''https://server.arcgisonline.com/ArcGIS/rest/services/World_Terrain_Base/MapServer/tile/{z}/{y}/{x}'',
       cfg_tile_size = 256, cfg_requires_api_key = False, cfg_api_env = None,
       cfg_special_handling = None,
       cfg_min_zoom = Some 0, cfg_max_zoom = Some 13 \<rparr>),
    (''Esri.Relief'', \<lparr>
       cfg_url_template = Some ''https://server.arcgisonline.com/ArcGIS/rest/services/World_Shaded_Relief/MapServer/tile/{z}/{y}/{x}.jpg'',
       cfg_tile_size = 256, cfg_requires_api_key = False, cfg_api_env = None,
       cfg_special_handling = None,
       cfg_min_zoom = Some 0, cfg_max_zoom = Some 13 \<rparr>),
    (''Esri.Hydro'', \<lparr>
       cfg_url_template = Some ''https://tiles.arcgis.com/tiles/P3ePLMYs2RVChkJx/arcgis/rest/services/Esri_Hydro_Reference_Overlay/MapServer/tile/{z}/{y}/{x}'',
       cfg_tile_size = 256, cfg_requires_api_key = False, cfg_api_env = None,
       cfg_special_handling = Some ''make_black_transparent'',
       cfg_min_zoom = Some 0, cfg_max_zoom = Some 19 \<rparr>),
    (''Esri.WorldImagery'', \<lparr>
       cfg_url_template = Some ''https://server.arcgisonline.com/ArcGIS/rest/services/World_Imagery/MapServer/tile/{z}/{y}/{x}'',
       cfg_tile_size = 256, cfg_requires_api_key = False, cfg_api_env = None,
       cfg_special_handling = None,
       cfg_min_zoom = Some 0, cfg_max_zoom = Some 19 \<rparr>),
    (''Esri.WorldTopo'', \<lparr>
       cfg_url_template = Some ''https://server.arcgisonline.com/ArcGIS/rest/services/World_Topo_Map/MapServer/tile/{z}/{y}/{x}'',
       cfg_tile_size = 256, cfg_requires_api_key = False, cfg_api_env = None,
       cfg_special_handling = None,
       cfg_min_zoom = Some 0, cfg_max_zoom = Some 19 \<rparr>),
    (''Esri.NatGeo'', \<lparr>
       cfg_url_template = Some ''https://server.arcgisonline.com/ArcGIS/rest/services/NatGeo_World_Map/MapServer/tile/{z}/{y}/{x}'',
       cfg_tile_size = 256, cfg_requires_api_key = False, cfg_api_env = None,
       cfg_special_handling = None,
       cfg_min_zoom = Some 0, cfg_max_zoom = Some 16 \<rparr>),
    (''Esri.WorldStreet'', \<lparr>
       cfg_url_template = Some ''https://server.arcgisonline.com/ArcGIS/rest/services/World_Street_Map/MapServer/tile/{z}/{y}/{x}'',
       cfg_tile_size = 256, cfg_requires_api_key = False, cfg_api_env = None,
       cfg_special_handling = None,
       cfg_min_zoom = Some 0, cfg_max_zoom = Some 19 \<rparr>),
    (''Esri.GrayCanvasBase'', \<lparr>
       cfg_url_template = Some ''https://server.arcgisonline.com/ArcGIS/rest/services/Canvas/World_Gray_Canvas/MapServer/tile/{z}/{y}/{x}'',
       cfg_tile_size = 256, cfg_requires_api_key = False, cfg_api_env = None,
       cfg_special_handling = None,
       cfg_min_zoom = Some 0, cfg_max_zoom = Some 16 \<rparr>),
    (''Esri.GrayCanvasLabels'', \<lparr>
       cfg_url_template = Some ''https://server.arcgisonline.com/ArcGIS/rest/services/Canvas/World_Gray_Canvas_Reference/MapServer/tile/{z}/{y}/{x}'',
       cfg_tile_size = 256, cfg_requires_api_key = False, cfg_api_env = None,
       cfg_special_handling = None,
       cfg_min_zoom = Some 0, cfg_max_zoom = Some 16 \<rparr>),
    (''Esri.WorldOceanBase'', \<lparr>
       cfg_url_template = Some ''https://server.arcgisonline.com/ArcGIS/rest/services/Ocean/World_Ocean_Base/MapServer/tile/{z}/{y}/{x}'',
       cfg_tile_size = 256, cfg_requires_api_key = False, cfg_api_env = None,
       cfg_special_handling = None,
       cfg_min_zoom = Some 0, cfg_max_zoom = Some 10 \<rparr>),
    (''Carto.Positron'', \<lparr>
       cfg_url_template = Some ''https://a.basemaps.cartocdn.com/light_all/{z}/{x}/{y}@2x.png'',
       cfg_tile_size = 512, cfg_requires_api_key = False, cfg_api_env = None,
       cfg_special_handling = None,
       cfg_min_zoom = Some 0, cfg_max_zoom = Some 20 \<rparr>),
    (''Carto.DarkMatter'', \<lparr>
       cfg_url_template = Some ''https://a.basemaps.cartocdn.com/dark_all/{z}/{x}/{y}@2x.png'',
       cfg_tile_size = 512, cfg_requires_api_key = False, cfg_api_env = None,
       cfg_special_handling = None,
       cfg_min_zoom = Some 0, cfg_max_zoom = Some 20 \<rparr>),
    (''OSM.Standard'', \<lparr>
       cfg_url_template = Some ''https://tile.openstreetmap.org/{z}/{x}/{y}.png'',
       cfg_tile_size = 256, cfg_requires_api_key = False, cfg_api_env = None,
       cfg_special_handling = None,
       cfg_min_zoom = Some 0, cfg_max_zoom = Some 19 \<rparr>)
  ]"

text \<open>The attributes \<open>__init__\<close> sets on a client.\<close>

record server =
  provider :: string
  config :: provider_config
  tile_size :: nat
  api_key :: "string option"

text \<open>
  \<open>BaseTileServer.__init__\<close>, for a class whose registry is \<open>providers\<close>: the client and
  the warnings emitted, or the \<open>ValueError\<close> for an unknown provider.
\<close>

definition BaseTileServer_init ::
  "world \<Rightarrow> (string \<times> provider_config) list \<Rightarrow> string \<Rightarrow> string option
     \<Rightarrow> pyerror + (server \<times> warning list)" where
  "BaseTileServer_init W providers prov key =
     (case map_of providers prov of
        None \<Rightarrow> Inl (ValueError_unknown_provider prov)
      | Some cfg \<Rightarrow>
          (let self = \<lparr>provider = prov, config = cfg, tile_size = cfg_tile_size cfg,
                       api_key = None\<rparr>
           in if cfg_requires_api_key cfg then
                (if truthy key then Inr (self\<lparr>api_key := key\<rparr>, [])
                 else
                   (let env_key = py_or (cfg_api_env cfg)
                          (if str_in ''Stadia'' prov then Some ''STADIA_API_KEY'' else None)
                    in if truthy env_key then
                         (let k = environ W (the env_key)
                          in if \<not> truthy k
                             then Inr (self\<lparr>api_key := k\<rparr>,
                                       [UserWarning_api_key prov (the env_key)])
                             else Inr (self\<lparr>api_key := k\<rparr>, []))
                       else Inr (self\<lparr>api_key := None\<rparr>, [])))
              else Inr (self\<lparr>api_key := key\<rparr>, [])))"

text \<open>\<open>RasterTileServer.__init__\<close>.\<close>

definition RasterTileServer_init ::
  "world \<Rightarrow> string \<Rightarrow> string option \<Rightarrow> pyerror + (server \<times> warning list)" where
  "RasterTileServer_init W prov key =
     (if \<not> Image_available W then Inl ImportError
      else BaseTileServer_init W PROVIDERS prov key)"

definition get_url_template :: "server \<Rightarrow> string" where
  "get_url_template self = dict_get (cfg_url_template (config self)) ''''"

text \<open>\<open>BaseTileServer._build_tile_url\<close>: the credential is \<open>self.api_key or ''\<close>.\<close>

definition build_tile_url :: "server \<Rightarrow> int \<Rightarrow> int \<Rightarrow> int \<Rightarrow> pyerror + string" where
  "build_tile_url self z x y =
     (let template = get_url_template self
      in format template
           [(''z'', str_int z), (''x'', str_int x), (''y'', str_int y),
            (''api_key'', the (py_or (api_key self) (Some '''')))])"

section \<open>Post-processing and fetching one tile\<close>

text \<open>The loop of \<open>_apply_special_handling\<close> over the pixels, appending to \<open>new_data\<close>.\<close>

fun black_to_transparent :: "pixel list \<Rightarrow> pixel list \<Rightarrow> pixel list" where
  "black_to_transparent [] new_data = new_data"
| "black_to_transparent (item # datas) new_data =
     (case item of (r, g, b, a) \<Rightarrow>
        if r = 0 \<and> g = 0 \<and> b = 0
        then black_to_transparent datas (new_data @ [(0, 0, 0, 0)])
        else black_to_transparent datas (new_data @ [item]))"

text \<open>\<open>RasterTileServer._apply_special_handling\<close>.\<close>

definition apply_special_handling :: "server \<Rightarrow> image \<Rightarrow> image" where
  "apply_special_handling self img =
     (let handling = cfg_special_handling (config self)
      in if handling = Some ''make_black_transparent'' then
           (let img1 = convert_RGBA img;
                datas = getdata img1;
                new_data = black_to_transparent datas []
            in putdata img1 new_data)
         else img)"

text \<open>\<open>RasterTileServer.fetch_tile\<close>.\<close>

definition fetch_tile :: "world \<Rightarrow> server \<Rightarrow> int \<Rightarrow> int \<Rightarrow> int \<Rightarrow> pyerror + image" where
  "fetch_tile W self z x y =
     (case build_tile_url self z x y of
        Inl e \<Rightarrow> Inl e
      | Inr url \<Rightarrow>
          (case requests_get W url of
             Inl e \<Rightarrow> Inl e
           | Inr response \<Rightarrow>
               if fst response = 200 then
                 (case Image_open W (snd response) of
                    Inl e \<Rightarrow> Inl e
                  | Inr img \<Rightarrow>
                      if truthy (cfg_special_handling (config self))
                      then Inr (apply_special_handling self img)
                      else Inr img)
               else Inl (Exception_fetch_failed (provider self) (fst response) url)))"

section \<open>Zoom and supersample validation\<close>

text \<open>
  \<open>RasterTileServer._validate_zoom_level\<close>: returns \<open>(fetch_zoom, supersample)\<close> and
  the warnings it emitted.
\<close>

definition validate_zoom_level ::
  "server \<Rightarrow> int \<Rightarrow> int \<Rightarrow> pyerror + ((int \<times> int) \<times> warning list)" where
  "validate_zoom_level self zoom_level supersample =
    (let fetch_zoom = zoom_level + supersample;
         min_zoom = dict_get (cfg_min_zoom (config self)) 0;
         max_zoom = dict_get (cfg_max_zoom (config self)) 18
     in if zoom_level < min_zoom
          then Inl (ValueError_zoom_below_min (provider self) zoom_level min_zoom)
        else if zoom_level > max_zoom
          then Inl (ValueError_zoom_above_max (provider self) zoom_level max_zoom)
        else if fetch_zoom > max_zoom
          then (let original_supersample = supersample;
                    supersample' = max 0 (max_zoom - zoom_level);
                    w = UserWarning_supersample (provider self) max_zoom zoom_level
                          original_supersample fetch_zoom supersample';
                    fetch_zoom' = zoom_level + supersample'
                in Inr ((fetch_zoom', supersample'), [w]))
        else Inr ((fetch_zoom, supersample), []))"

section \<open>Tile coordinates\<close>

text \<open>
  Python's floats are read as real numbers: the arithmetic is exact, and rounding,
  overflow and NaN are outside the model. What \<open>math\<close> raises on the reals is kept:
  \<open>1 / cos\<close> at a zero of the cosine is a \<open>ZeroDivisionError\<close>, \<open>math.log\<close> of a number
  that is not positive a \<open>ValueError\<close>. \<open>int(r)\<close> truncates towards zero.
\<close>

definition py_int :: "real \<Rightarrow> int" where
  "py_int r = (if 0 \<le> r then \<lfloor>r\<rfloor> else \<lceil>r\<rceil>)"

definition radians :: "real \<Rightarrow> real" where
  "radians d = d * pi / 180"

text \<open>\<open>RasterTileServer.lonlat_to_tile\<close>.\<close>

definition lonlat_to_tile :: "real \<Rightarrow> real \<Rightarrow> int \<Rightarrow> pyerror + (int \<times> int)" where
  "lonlat_to_tile lon lat zoom =
     (let lat_rad = radians lat;
          n = 2 powr (of_int zoom);
          x_tile = py_int ((lon + 180) / 360 * n)
      in if cos lat_rad = 0 then Inl ZeroDivisionError
         else if tan lat_rad + 1 / cos lat_rad \<le> 0 then Inl ValueError_math_domain
         else Inr (x_tile,
                   py_int ((1 - ln (tan lat_rad + 1 / cos lat_rad) / pi) / 2 * n)))"

text \<open>
  \<open>RasterTileServer.extent_to_tile_indices\<close>; the extent is \<open>(minx, maxx, miny, maxy)\<close>,
  the result \<open>(x_min, y_min, x_max, y_max)\<close>.
\<close>

definition extent_to_tile_indices ::
  "real \<times> real \<times> real \<times> real \<Rightarrow> int \<Rightarrow> pyerror + (int \<times> int \<times> int \<times> int)" where
  "extent_to_tile_indices extent zoom =
     (case extent of (minx, maxx, miny, maxy) \<Rightarrow>
        (case lonlat_to_tile minx miny zoom of
           Inl e \<Rightarrow> Inl e
         | Inr (x_min, y_max) \<Rightarrow>
             (case lonlat_to_tile maxx maxy zoom of
                Inl e \<Rightarrow> Inl e
              | Inr (x_max, y_min) \<Rightarrow> Inr (x_min, y_min, x_max, y_max))))"

section \<open>Compositing\<close>

text \<open>
  Both iterations of \<open>combine_tiles\<close>: \<open>tiles[row][col]\<close> raises \<open>IndexError\<close> when the
  row is shorter than the first one.
\<close>

fun paste_row :: "image \<Rightarrow> image list \<Rightarrow> nat \<Rightarrow> nat \<Rightarrow> nat list \<Rightarrow> pyerror + image" where
  "paste_row combined_img tile_row tile_size' row [] = Inr combined_img"
| "paste_row combined_img tile_row tile_size' row (col # cols) =
     (if col < length tile_row
      then paste_row (paste combined_img (tile_row ! col) (col * tile_size', row * tile_size'))
             tile_row tile_size' row cols
      else Inl IndexError)"

fun paste_rows :: "image \<Rightarrow> image list list \<Rightarrow> nat \<Rightarrow> nat \<Rightarrow> nat list \<Rightarrow> pyerror + image" where
  "paste_rows combined_img tiles tile_size' cols [] = Inr combined_img"
| "paste_rows combined_img tiles tile_size' cols (row # rows) =
     (case paste_row combined_img (tiles ! row) tile_size' row [0..<cols] of
        Inl e \<Rightarrow> Inl e
      | Inr img \<Rightarrow> paste_rows img tiles tile_size' cols rows)"

text \<open>\<open>RasterTileServer.combine_tiles\<close>.\<close>

definition combine_tiles :: "image list list \<Rightarrow> nat \<Rightarrow> pyerror + image" where
  "combine_tiles tiles tile_size' =
     (let rows = length tiles;
          cols = (if rows > 0 then length (tiles ! 0) else 0)
      in if rows = 0 \<or> cols = 0 then Inr (Image_new_RGBA (tile_size', tile_size'))
         else paste_rows (Image_new_RGBA (cols * tile_size', rows * tile_size'))
                tiles tile_size' cols [0..<rows])"

section \<open>Resampling filters\<close>

definition filters :: "(string \<times> resample) list" where
  "filters = [(''lanczos'', LANCZOS), (''bicubic'', BICUBIC), (''bilinear'', BILINEAR),
              (''nearest'', NEAREST)]"

text \<open>\<open>RasterTileServer._get_resample_filter\<close>.\<close>

definition get_resample_filter :: "world \<Rightarrow> string \<Rightarrow> pyerror + resample" where
  "get_resample_filter W method =
     (if \<not> Image_available W then Inl ImportError
      else Inr (dict_get (map_of filters (lower method)) LANCZOS))"

section \<open>Fetching an extent\<close>

text \<open>
  \<open>RasterTileServer.fetch_tiles_for_extent\<close>. The array returned is the image it is made
  from; the warnings of the validator come with it.
\<close>

definition fetch_tiles_for_extent ::
  "world \<Rightarrow> server \<Rightarrow> real \<times> real \<times> real \<times> real \<Rightarrow> int \<Rightarrow> int \<Rightarrow> bool \<Rightarrow> string
     \<Rightarrow> pyerror + (image \<times> warning list)" where
  "fetch_tiles_for_extent W self extent zoom_level supersample0 resample' resample_method =
     (case validate_zoom_level self zoom_level supersample0 of
        Inl e \<Rightarrow> Inl e
      | Inr ((fetch_zoom, supersample), ws) \<Rightarrow>
     (case extent_to_tile_indices extent fetch_zoom of
        Inl e \<Rightarrow> Inl e
      | Inr (x_min, y_min, x_max, y_max) \<Rightarrow>
     (case traverse (\<lambda>y. traverse (\<lambda>x. fetch_tile W self fetch_zoom x y) [x_min..x_max])
             [y_min..y_max] of
        Inl e \<Rightarrow> Inl e
      | Inr tiles \<Rightarrow>
     (let actual_tile_size =
            (case tiles of (t # _) # _ \<Rightarrow> fst (im_size t) | _ \<Rightarrow> tile_size self)
      in
     (case combine_tiles tiles actual_tile_size of
        Inl e \<Rightarrow> Inl e
      | Inr combined_img \<Rightarrow>
     (case (if supersample > 0 then
              (case extent_to_tile_indices extent zoom_level of
                 Inl e \<Rightarrow> Inl e
               | Inr (original_x_min, original_y_min, original_x_max, original_y_max) \<Rightarrow>
                   (let target_width = (original_x_max - original_x_min + 1) * int (tile_size self);
                        target_height = (original_y_max - original_y_min + 1) * int (tile_size self)
                    in case get_resample_filter W ''lanczos'' of
                         Inl e \<Rightarrow> Inl e
                       | Inr resample_filter \<Rightarrow>
                           Image_resize W combined_img (target_width, target_height)
                             resample_filter))
            else Inr combined_img) of
        Inl e \<Rightarrow> Inl e
      | Inr combined_img1 \<Rightarrow>
     (case (if resample' \<and> supersample = 0 then
              (let current_size = im_size combined_img1
               in case get_resample_filter W resample_method of
                    Inl e \<Rightarrow> Inl e
                  | Inr resample_filter \<Rightarrow>
                      (let temp_size = (py_int (real (fst current_size) * 1.02),
                                        py_int (real (snd current_size) * 1.02))
                       in case Image_resize W combined_img1 temp_size BICUBIC of
                            Inl e \<Rightarrow> Inl e
                          | Inr combined_img2 \<Rightarrow>
                              Image_resize W combined_img2
                                (int (fst current_size), int (snd current_size))
                                resample_filter))
            else Inr combined_img1) of
        Inl e \<Rightarrow> Inl e
      | Inr combined_img3 \<Rightarrow> Inr (combined_img3, ws))))))))"

section \<open>The cartopy tile source\<close>

text \<open>
  What the \<open>UnifiedTileSource\<close> of \<open>get_cartopy_source\<close> closes over: the client (its
  provider, configuration and key), the supersample level and the filter.
\<close>

record tile_source =
  parent_instance :: server
  src_supersample :: int
  src_resample_filter :: resample

definition get_cartopy_source :: "world \<Rightarrow> server \<Rightarrow> int \<Rightarrow> string \<Rightarrow> pyerror + tile_source" where
  "get_cartopy_source W self supersample resample_method =
     (case get_resample_filter W resample_method of
        Inl e \<Rightarrow> Inl e
      | Inr resample_filter \<Rightarrow>
          Inr \<lparr>parent_instance = self, src_supersample = supersample,
               src_resample_filter = resample_filter\<rparr>)"

text \<open>
  The fallback of \<open>get_image\<close> calls \<open>BaseTileServer._calculate_tile_extent_web_mercator\<close>.
  \<open>base_tile_server.py\<close> defines no attribute of that name (the function of that name is a
  static method of \<open>RasterTileServer\<close>), so the lookup on the class raises.
\<close>

definition BaseTileServer_calculate_tile_extent_web_mercator ::
  "int \<Rightarrow> int \<Rightarrow> int \<Rightarrow> pyerror + (real \<times> real \<times> real \<times> real)" where
  "BaseTileServer_calculate_tile_extent_web_mercator x y z = Inl AttributeError"

text \<open>The parent's \<open>get_image\<close> followed by the special handling: the path without supersampling.\<close>

definition get_image_plain ::
  "world \<Rightarrow> tile_source \<Rightarrow> int \<times> int \<times> int
     \<Rightarrow> pyerror + (image \<times> (real \<times> real \<times> real \<times> real) \<times> string)" where
  "get_image_plain W src tile =
     (case GoogleTiles_get_image W tile of
        Inl e \<Rightarrow> Inl e
      | Inr (img, extent, origin) \<Rightarrow>
          if truthy (cfg_special_handling (config (parent_instance src)))
          then Inr (apply_special_handling (parent_instance src) img, extent, origin)
          else Inr (img, extent, origin))"

text \<open>One sub-tile of \<open>get_image\<close>: the body of the \<open>try\<close> and its \<open>except Exception\<close>.\<close>

definition fetch_sub_tile :: "world \<Rightarrow> server \<Rightarrow> int \<Rightarrow> int \<Rightarrow> int \<Rightarrow> image" where
  "fetch_sub_tile W parent fetch_z fetch_x fetch_y =
     (case fetch_tile W parent fetch_z fetch_x fetch_y of
        Inr high_res_tile \<Rightarrow>
          if im_mode high_res_tile \<noteq> ''RGBA'' then convert_RGBA high_res_tile
          else high_res_tile
      | Inl e \<Rightarrow> Image_new_RGBA (tile_size parent, tile_size parent))"

text \<open>\<open>UnifiedTileSource.get_image\<close>; the tile is \<open>(x, y, z)\<close>.\<close>

definition get_image ::
  "world \<Rightarrow> tile_source \<Rightarrow> int \<times> int \<times> int
     \<Rightarrow> pyerror + (image \<times> (real \<times> real \<times> real \<times> real) \<times> string)" where
  "get_image W src tile =
     (case tile of (x, y, z) \<Rightarrow>
      (let supersample = src_supersample src; parent = parent_instance src
       in if supersample \<le> 0 then get_image_plain W src tile
          else
            (let max_zoom = dict_get (cfg_max_zoom (config parent)) 18;
                 actual_supersample = (if z + supersample > max_zoom then max_zoom - z
                                       else supersample);
                 fetch_z = (if z + supersample > max_zoom then max_zoom else z + supersample)
             in if actual_supersample \<le> 0 then get_image_plain W src tile
                else
                  (let scale = (2::int) ^ nat actual_supersample;
                       tiles = map (\<lambda>dy. map (\<lambda>dx. fetch_sub_tile W parent fetch_z
                                                     (x * scale + dx) (y * scale + dy))
                                            [0..scale - 1])
                                 [0..scale - 1]
                   in case (case tiles of
                              (t # _) # _ \<Rightarrow> combine_tiles tiles (fst (im_size t))
                            | _ \<Rightarrow> Inr (Image_new_RGBA (tile_size parent, tile_size parent))) of
                        Inl e \<Rightarrow> Inl e
                      | Inr combined_img \<Rightarrow>
                          (let target_size = tile_size parent
                           in case Image_resize W combined_img
                                     (int target_size, int target_size)
                                     (src_resample_filter src) of
                                Inl e \<Rightarrow> Inl e
                              | Inr combined_img1 \<Rightarrow>
                                  (case GoogleTiles_get_image W tile of
                                     Inr (_, extent, origin) \<Rightarrow>
                                       Inr (combined_img1, extent, origin)
                                   | Inl e \<Rightarrow>
                                       (case BaseTileServer_calculate_tile_extent_web_mercator
                                               x y z of
                                          Inl e' \<Rightarrow> Inl e'
                                        | Inr extent \<Rightarrow>
                                            Inr (combined_img1, extent, ''upper''))))))))"

section \<open>Image invariant and tile boxes\<close>

text \<open>The data of an image has one pixel for each position.\<close>

definition wf_image :: "image \<Rightarrow> bool" where
  "wf_image img = (length (im_data img) = fst (im_size img) * snd (im_size img))"

text \<open>The position \<open>p\<close> lies in the box of the tile in column \<open>c\<close>, row \<open>r\<close>.\<close>

definition in_box :: "nat \<Rightarrow> nat \<Rightarrow> nat \<Rightarrow> nat \<times> nat \<Rightarrow> bool" where
  "in_box ts c r p = (c * ts \<le> fst p \<and> fst p < c * ts + ts \<and> r * ts \<le> snd p \<and> snd p < r * ts + ts)"

section \<open>A concrete world and concrete clients\<close>

text \<open>
  A world to run the model in: a server that answers every URL with the same body, except
  the URLs in \<open>down\<close>, which get a 404; a decoder that reads that body as a white RGB tile
  of a given edge; a nearest-neighbour \<open>resize\<close>; no environment variables.
\<close>

definition tile_body :: "8 word list" where
  "tile_body = [137, 80, 78, 71]"

definition white_tile :: "nat \<Rightarrow> image" where
  "white_tile edge =
     \<lparr>im_mode = ''RGB'', im_size = (edge, edge),
      im_data = replicate (edge * edge) (255, 255, 255, 255)\<rparr>"

definition resize_nearest :: "image \<Rightarrow> nat \<times> nat \<Rightarrow> image" where
  "resize_nearest img sz =
     \<lparr>im_mode = im_mode img, im_size = sz,
      im_data = map (\<lambda>i. getpixel img ((i mod fst sz) * fst (im_size img) div fst sz,
                                          (i div fst sz) * snd (im_size img) div snd sz))
                  [0..<fst sz * snd sz]\<rparr>"

definition demo_world :: "nat \<Rightarrow> (string \<Rightarrow> bool) \<Rightarrow> world" where
  "demo_world edge down =
     \<lparr>Image_available = True,
      environ = Map.empty,
      requests_get = (\<lambda>url. if down url then Inr (404, []) else Inr (200, tile_body)),
      Image_open = (\<lambda>content. if content = tile_body then Inr (white_tile edge)
                               else Inl UnidentifiedImageError),
      Image_resize = (\<lambda>img sz f. if 0 < fst sz \<and> 0 < snd sz
                                  then Inr (resize_nearest img (nat (fst sz), nat (snd sz)))
                                  else Inl ResizeError),
      GoogleTiles_get_image = (\<lambda>tile. Inr (white_tile edge, (0, 1, 0, 1), ''lower''))\<rparr>"

text \<open>The client \<open>__init__\<close> builds for a registered provider when no key is found.\<close>

definition client :: "string \<Rightarrow> server" where
  "client prov =
     (let cfg = the (map_of PROVIDERS prov)
      in \<lparr>provider = prov, config = cfg, tile_size = cfg_tile_size cfg, api_key = None\<rparr>)"

text \<open>A tile source with one level of supersampling, and a server with one tile down.\<close>

definition demo_source :: tile_source where
  "demo_source = \<lparr>parent_instance = client ''Esri.Terrain'', src_supersample = 1,
                   src_resample_filter = LANCZOS\<rparr>"

definition one_down :: "string \<Rightarrow> bool" where
  "one_down url = (url = ''https://server.arcgisonline.com/ArcGIS/rest/services/World_Terrain_Base/MapServer/tile/1/0/1'')"

section \<open>Properties\<close>

subsection \<open>Images: pasting and compositing\<close>

text \<open>
  A paste changes the pixels of its box and no other; the boxes of distinct grid positions
  are disjoint, so after both iterations every box holds its tile.
\<close>

lemma paste_fields [simp]:
  "im_size (paste canvas im box) = im_size canvas"
  "im_mode (paste canvas im box) = im_mode canvas"
  "length (im_data (paste canvas im box)) = length (im_data canvas)"
  by (simp_all add: paste_def Let_def)

lemma wf_image_paste [simp]: "wf_image (paste canvas im box) = wf_image canvas"
  by (simp add: wf_image_def)

lemma wf_image_new [simp]: "wf_image (Image_new_RGBA sz)"
  by (simp add: wf_image_def Image_new_RGBA_def)

lemma Image_new_fields [simp]:
  "im_size (Image_new_RGBA sz) = sz"
  "im_mode (Image_new_RGBA sz) = ''RGBA''"
  "length (im_data (Image_new_RGBA sz)) = fst sz * snd sz"
  by (simp_all add: Image_new_RGBA_def)

lemma pixel_index:
  assumes "x < (w::nat)" "y < h"
  shows "y * w + x < w * h" "(y * w + x) mod w = x" "(y * w + x) div w = y"
proof -
  have "y * w + x < y * w + w" using assms by simp
  also have "\<dots> = (Suc y) * w" by simp
  also have "\<dots> \<le> h * w" using assms by (intro mult_le_mono1) simp
  finally show "y * w + x < w * h" by (simp add: mult.commute)
  show "(y * w + x) mod w = x" using assms by simp
  show "(y * w + x) div w = y" using assms by simp
qed

lemma getpixel_new:
  "x < w \<Longrightarrow> y < h \<Longrightarrow> getpixel (Image_new_RGBA (w, h)) (x, y) = (0, 0, 0, 0)"
  using pixel_index(1) [of x w y h] by (simp add: getpixel_def Image_new_RGBA_def)

lemma getpixel_paste:
  assumes "wf_image canvas" "x < fst (im_size canvas)" "y < snd (im_size canvas)"
  shows "getpixel (paste canvas im (ox, oy)) (x, y) =
           (if ox \<le> x \<and> x < ox + fst (im_size im) \<and> oy \<le> y \<and> y < oy + snd (im_size im)
            then getpixel im (x - ox, y - oy) else getpixel canvas (x, y))"
proof -
  let ?w = "fst (im_size canvas)" and ?h = "snd (im_size canvas)"
  have i: "y * ?w + x < length (im_data canvas)"
    using pixel_index(1) [OF assms(2,3)] assms(1) by (simp add: wf_image_def)
  show ?thesis
    using i pixel_index(2,3) [OF assms(2,3)]
    by (simp add: getpixel_def paste_def Let_def)
qed

lemma in_box_unique:
  assumes "in_box ts c r p" "in_box ts c' r' p"
  shows "c = c' \<and> r = r'"
proof -
  have u: "a = b" if "a * ts \<le> v" "v < a * ts + ts" "b * ts \<le> v" "v < b * ts + ts" for a b v :: nat
  proof (rule ccontr)
    assume "a \<noteq> b"
    then consider "Suc a \<le> b" | "Suc b \<le> a" by linarith
    then show False
    proof cases
      case 1
      then have "Suc a * ts \<le> b * ts" by (rule mult_le_mono1)
      with that show False by simp
    next
      case 2
      then have "Suc b * ts \<le> a * ts" by (rule mult_le_mono1)
      with that show False by simp
    qed
  qed
  show ?thesis using assms u [of c "fst p" c'] u [of r "snd p" r'] by (simp add: in_box_def)
qed

lemma paste_row_Inr:
  assumes "\<forall>c\<in>set cols. c < length tile_row"
  shows "\<exists>out. paste_row canvas tile_row ts row cols = Inr out \<and> im_size out = im_size canvas
           \<and> im_mode out = im_mode canvas \<and> wf_image out = wf_image canvas"
  using assms
proof (induction cols arbitrary: canvas)
  case Nil
  then show ?case by simp
next
  case (Cons c cols)
  from Cons.IH [of "paste canvas (tile_row ! c) (c * ts, row * ts)"] Cons.prems
  show ?case by auto
qed

lemma paste_row_outside:
  assumes "paste_row canvas tile_row ts row cols = Inr out" "wf_image canvas"
    and "\<forall>c\<in>set cols. im_size (tile_row ! c) = (ts, ts)"
    and "x < fst (im_size canvas)" "y < snd (im_size canvas)"
    and "\<forall>c\<in>set cols. \<not> in_box ts c row (x, y)"
  shows "getpixel out (x, y) = getpixel canvas (x, y)"
  using assms
proof (induction cols arbitrary: canvas)
  case Nil
  then show ?case by simp
next
  case (Cons c cols)
  let ?canvas' = "paste canvas (tile_row ! c) (c * ts, row * ts)"
  from Cons.prems(1) have lt: "c < length tile_row" and r: "paste_row ?canvas' tile_row ts row cols = Inr out"
    by (auto split: if_splits)
  have "getpixel out (x, y) = getpixel ?canvas' (x, y)"
    using Cons.IH [OF r] Cons.prems by simp
  also have "\<dots> = getpixel canvas (x, y)"
    using Cons.prems by (auto simp add: getpixel_paste in_box_def)
  finally show ?case .
qed

lemma paste_row_inside:
  assumes "paste_row canvas tile_row ts row cols = Inr out" "wf_image canvas"
    and "\<forall>c\<in>set cols. im_size (tile_row ! c) = (ts, ts)"
    and "x < fst (im_size canvas)" "y < snd (im_size canvas)"
    and "distinct cols" "c \<in> set cols" "in_box ts c row (x, y)"
  shows "getpixel out (x, y) = getpixel (tile_row ! c) (x - c * ts, y - row * ts)"
  using assms
proof (induction cols arbitrary: canvas)
  case Nil
  then show ?case by simp
next
  case (Cons c0 cols)
  let ?canvas' = "paste canvas (tile_row ! c0) (c0 * ts, row * ts)"
  from Cons.prems(1) have r: "paste_row ?canvas' tile_row ts row cols = Inr out"
    by (auto split: if_splits)
  show ?case
  proof (cases "c = c0")
    case True
    have "\<forall>c'\<in>set cols. \<not> in_box ts c' row (x, y)"
      using in_box_unique [OF Cons.prems(8)] Cons.prems(6) True by auto
    then have "getpixel out (x, y) = getpixel ?canvas' (x, y)"
      using paste_row_outside [OF r] Cons.prems by simp
    also have "\<dots> = getpixel (tile_row ! c) (x - c * ts, y - row * ts)"
      using Cons.prems True by (simp add: getpixel_paste in_box_def)
    finally show ?thesis .
  next
    case False
    then show ?thesis using Cons.IH [OF r] Cons.prems by simp
  qed
qed

lemma paste_rows_Inr:
  assumes "\<forall>r\<in>set rows. cols \<le> length (tiles ! r)"
  shows "\<exists>out. paste_rows canvas tiles ts cols rows = Inr out \<and> im_size out = im_size canvas
           \<and> im_mode out = im_mode canvas \<and> wf_image out = wf_image canvas"
  using assms
proof (induction rows arbitrary: canvas)
  case Nil
  then show ?case by simp
next
  case (Cons r rows)
  have "\<forall>c\<in>set [0..<cols]. c < length (tiles ! r)" using Cons.prems by auto
  from paste_row_Inr [OF this, of canvas ts r] obtain img where
    img: "paste_row canvas (tiles ! r) ts r [0..<cols] = Inr img" "im_size img = im_size canvas"
      "im_mode img = im_mode canvas" "wf_image img = wf_image canvas" by blast
  from Cons.IH [of img] Cons.prems obtain out where
    "paste_rows img tiles ts cols rows = Inr out" "im_size out = im_size img"
      "im_mode out = im_mode img" "wf_image out = wf_image img" by auto
  with img show ?case by simp
qed

lemma paste_rows_outside:
  assumes "paste_rows canvas tiles ts cols rows = Inr out" "wf_image canvas"
    and "\<forall>r\<in>set rows. cols \<le> length (tiles ! r) \<and> (\<forall>c<cols. im_size (tiles ! r ! c) = (ts, ts))"
    and "x < fst (im_size canvas)" "y < snd (im_size canvas)"
    and "\<forall>r\<in>set rows. \<forall>c<cols. \<not> in_box ts c r (x, y)"
  shows "getpixel out (x, y) = getpixel canvas (x, y)"
  using assms
proof (induction rows arbitrary: canvas)
  case Nil
  then show ?case by simp
next
  case (Cons r rows)
  have "\<forall>c\<in>set [0..<cols]. c < length (tiles ! r)" using Cons.prems by auto
  from paste_row_Inr [OF this, of canvas ts r] obtain img where
    img: "paste_row canvas (tiles ! r) ts r [0..<cols] = Inr img" "im_size img = im_size canvas"
      "im_mode img = im_mode canvas" "wf_image img = wf_image canvas" by blast
  with Cons.prems(1) have r: "paste_rows img tiles ts cols rows = Inr out" by simp
  have "getpixel out (x, y) = getpixel img (x, y)"
    using Cons.IH [OF r] Cons.prems img by simp
  also have "\<dots> = getpixel canvas (x, y)"
    using paste_row_outside [OF img(1) Cons.prems(2), of x y] Cons.prems by simp
  finally show ?case .
qed

lemma paste_rows_inside:
  assumes "paste_rows canvas tiles ts cols rows = Inr out" "wf_image canvas"
    and "\<forall>r\<in>set rows. cols \<le> length (tiles ! r) \<and> (\<forall>c<cols. im_size (tiles ! r ! c) = (ts, ts))"
    and "x < fst (im_size canvas)" "y < snd (im_size canvas)"
    and "distinct rows" "r \<in> set rows" "c < cols" "in_box ts c r (x, y)"
  shows "getpixel out (x, y) = getpixel (tiles ! r ! c) (x - c * ts, y - r * ts)"
  using assms
proof (induction rows arbitrary: canvas)
  case Nil
  then show ?case by simp
next
  case (Cons r0 rows)
  have "\<forall>c\<in>set [0..<cols]. c < length (tiles ! r0)" using Cons.prems by auto
  from paste_row_Inr [OF this, of canvas ts r0] obtain img where
    img: "paste_row canvas (tiles ! r0) ts r0 [0..<cols] = Inr img" "im_size img = im_size canvas"
      "im_mode img = im_mode canvas" "wf_image img = wf_image canvas" by blast
  with Cons.prems(1) have r: "paste_rows img tiles ts cols rows = Inr out" by simp
  show ?case
  proof (cases "r = r0")
    case True
    have "\<forall>r'\<in>set rows. \<forall>c'<cols. \<not> in_box ts c' r' (x, y)"
      using in_box_unique [OF Cons.prems(9)] Cons.prems(6) True by auto
    then have "getpixel out (x, y) = getpixel img (x, y)"
      using paste_rows_outside [OF r, of x y] Cons.prems img by simp
    also have "\<dots> = getpixel (tiles ! r ! c) (x - c * ts, y - r * ts)"
      using paste_row_inside [OF img(1) Cons.prems(2), of x y c] Cons.prems True by simp
    finally show ?thesis .
  next
    case False
    then show ?thesis using Cons.IH [OF r] Cons.prems img by simp
  qed
qed

lemma combine_tiles_grid:
  assumes "tiles \<noteq> []" "hd tiles \<noteq> []"
    and "\<forall>row\<in>set tiles. length (hd tiles) \<le> length row"
  shows "\<exists>out. combine_tiles tiles ts = Inr out
           \<and> im_mode out = ''RGBA''
           \<and> im_size out = (length (hd tiles) * ts, length tiles * ts)
           \<and> wf_image out
           \<and> ((\<forall>row\<in>set tiles. \<forall>c<length (hd tiles). im_size (row ! c) = (ts, ts)) \<longrightarrow>
               (\<forall>r<length tiles. \<forall>c<length (hd tiles). \<forall>i<ts. \<forall>j<ts.
                  getpixel out (c * ts + i, r * ts + j) = getpixel (tiles ! r ! c) (i, j)))"
proof -
  let ?rows = "length tiles" and ?cols = "length (hd tiles)"
  let ?canvas = "Image_new_RGBA (?cols * ts, ?rows * ts)"
  have hd0: "tiles ! 0 = hd tiles" using assms(1) by (simp add: hd_conv_nth)
  have len: "\<forall>r\<in>set [0..<?rows]. ?cols \<le> length (tiles ! r)" using assms(3) by simp
  from paste_rows_Inr [OF len, of ?canvas ts] obtain out where
    out: "paste_rows ?canvas tiles ts ?cols [0..<?rows] = Inr out" "im_size out = im_size ?canvas"
      "im_mode out = im_mode ?canvas" "wf_image out = wf_image ?canvas" by blast
  have c: "combine_tiles tiles ts = Inr out"
    using assms(1,2) out(1) hd0 by (simp add: combine_tiles_def Let_def)
  have px: "getpixel out (c * ts + i, r * ts + j) = getpixel (tiles ! r ! c) (i, j)"
    if sz: "\<forall>row\<in>set tiles. \<forall>c<?cols. im_size (row ! c) = (ts, ts)"
      and b: "r < ?rows" "c < ?cols" "i < ts" "j < ts" for r c i j
  proof -
    have x: "c * ts + i < ?cols * ts"
    proof -
      have "c * ts + i < Suc c * ts" using b by simp
      also have "\<dots> \<le> ?cols * ts" using b by (intro mult_le_mono1) simp
      finally show ?thesis .
    qed
    have y: "r * ts + j < ?rows * ts"
    proof -
      have "r * ts + j < Suc r * ts" using b by simp
      also have "\<dots> \<le> ?rows * ts" using b by (intro mult_le_mono1) simp
      finally show ?thesis .
    qed
    have "getpixel out (c * ts + i, r * ts + j)
            = getpixel (tiles ! r ! c) (c * ts + i - c * ts, r * ts + j - r * ts)"
      using paste_rows_inside [OF out(1), of "c * ts + i" "r * ts + j" r c] len sz b x y
      by (simp add: in_box_def)
    then show ?thesis by simp
  qed
  show ?thesis using c out px by auto
qed

subsection \<open>The concrete world and clients\<close>

text \<open>
  The concrete clients are the ones the constructor builds, and the concrete world keeps
  PIL's contract for \<open>resize\<close>.
\<close>

lemma client_Esri_Terrain:
  "client ''Esri.Terrain'' = \<lparr>provider = ''Esri.Terrain'',
     config = \<lparr>
       cfg_url_template = Some ''https://server.arcgisonline.com/ArcGIS/rest/services/World_Terrain_Base/MapServer/tile/{z}/{y}/{x}'',
       cfg_tile_size = 256, cfg_requires_api_key = False, cfg_api_env = None,
       cfg_special_handling = None,
       cfg_min_zoom = Some 0, cfg_max_zoom = Some 13 \<rparr>,
     tile_size = 256, api_key = None\<rparr>"
  by (simp add: client_def PROVIDERS_def)

lemma client_Stadia:
  "client ''Stadia.StamenTerrain'' = \<lparr>provider = ''Stadia.StamenTerrain'',
     config = \<lparr>
       cfg_url_template = Some ''https://tiles.stadiamaps.com/tiles/stamen_terrain/{z}/{x}/{y}@2x.png?api_key={api_key}'',
       cfg_tile_size = 512, cfg_requires_api_key = True, cfg_api_env = None,
       cfg_special_handling = None,
       cfg_min_zoom = Some 0, cfg_max_zoom = Some 18 \<rparr>,
     tile_size = 512, api_key = None\<rparr>"
  by (simp add: client_def PROVIDERS_def)

lemma client_Esri_Hydro:
  "client ''Esri.Hydro'' = \<lparr>provider = ''Esri.Hydro'',
     config = \<lparr>
       cfg_url_template = Some ''https://tiles.arcgis.com/tiles/P3ePLMYs2RVChkJx/arcgis/rest/services/Esri_Hydro_Reference_Overlay/MapServer/tile/{z}/{y}/{x}'',
       cfg_tile_size = 256, cfg_requires_api_key = False, cfg_api_env = None,
       cfg_special_handling = Some ''make_black_transparent'',
       cfg_min_zoom = Some 0, cfg_max_zoom = Some 19 \<rparr>,
     tile_size = 256, api_key = None\<rparr>"
  by (simp add: client_def PROVIDERS_def)

lemma init_Esri_Terrain:
  "RasterTileServer_init (demo_world edge down) ''Esri.Terrain'' None
     = Inr (client ''Esri.Terrain'', [])"
  by (simp add: RasterTileServer_init_def BaseTileServer_init_def demo_world_def client_def
      PROVIDERS_def Let_def)

lemma init_Esri_Hydro:
  "RasterTileServer_init (demo_world edge down) ''Esri.Hydro'' None
     = Inr (client ''Esri.Hydro'', [])"
  by (simp add: RasterTileServer_init_def BaseTileServer_init_def demo_world_def client_def
      PROVIDERS_def Let_def)

lemma white_tile_fields [simp]:
  "im_size (white_tile edge) = (edge, edge)" "im_mode (white_tile edge) = ''RGB''"
  by (simp_all add: white_tile_def)

lemma getpixel_white: "x < edge \<Longrightarrow> y < edge \<Longrightarrow> getpixel (white_tile edge) (x, y) = (255, 255, 255, 255)"
  using pixel_index(1) [of x edge y edge] by (simp add: getpixel_def white_tile_def)

lemma build_tile_url_Stadia_0_0_0:
  "build_tile_url (client ''Stadia.StamenTerrain'') 0 0 0 =
     Inr ''https://tiles.stadiamaps.com/tiles/stamen_terrain/0/0/0@2x.png?api_key=''"
  by (simp add: client_Stadia build_tile_url_def get_url_template_def dict_get_def
      format_def str_int_def digits_of.simps py_or_def truthy_def)

lemma build_tile_url_Esri:
  "build_tile_url (client ''Esri.Terrain'') z x y =
     Inr (''https://server.arcgisonline.com/ArcGIS/rest/services/World_Terrain_Base/MapServer/tile/''
          @ str_int z @ ''/'' @ str_int y @ ''/'' @ str_int x)"
  by (simp add: client_Esri_Terrain build_tile_url_def get_url_template_def dict_get_def
      format_def py_or_def truthy_def)

lemma fetch_tile_demo_up:
  "build_tile_url (client ''Esri.Terrain'') z x y = Inr url \<Longrightarrow>
   fetch_tile (demo_world 256 (\<lambda>url. False)) (client ''Esri.Terrain'') z x y = Inr (white_tile 256)"
  by (simp add: fetch_tile_def demo_world_def) (simp add: client_Esri_Terrain truthy_def)

lemma fetch_tile_demo_size:
  "fetch_tile (demo_world edge down) self z x y = Inr t \<Longrightarrow> im_size t = (edge, edge)"
  by (auto simp add: fetch_tile_def demo_world_def apply_special_handling_def Let_def
        convert_RGBA_def putdata_def
      split: sum.splits if_splits)

lemma resize_contract_demo: "resize_contract (demo_world edge down)"
  by (auto simp add: resize_contract_def demo_world_def resize_nearest_def split: if_splits)

lemma lonlat_equator:
  "lonlat_to_tile lon 0 zoom
     = Inr (py_int ((lon + 180) / 360 * 2 powr (of_int zoom)), py_int (2 powr (of_int zoom) / 2))"
  by (simp add: lonlat_to_tile_def radians_def Let_def)

subsection \<open>The validator\<close>

text \<open>
  C1. For a base zoom within the provider's bounds and a supersample \<open>s \<ge> 0\<close>, the
  validator returns \<open>(fetchZoom, s')\<close> with \<open>fetchZoom = z + s'\<close>, where \<open>s' = s\<close> when
  \<open>z + s \<le> maxZoom\<close> and \<open>s' = maxZoom - z\<close> otherwise, so that \<open>fetchZoom \<le> maxZoom\<close>;
  for \<open>z = 10\<close>, \<open>s = 5\<close>, \<open>maxZoom = 13\<close> the result is \<open>(13, 3)\<close>.
\<close>

theorem validate_zoom_level_clamps:
  assumes "dict_get (cfg_min_zoom (config self)) 0 \<le> z"
    and "z \<le> dict_get (cfg_max_zoom (config self)) 18"
    and "0 \<le> s"
  shows "\<exists>s' ws. validate_zoom_level self z s = Inr ((z + s', s'), ws)
           \<and> s' = (if z + s \<le> dict_get (cfg_max_zoom (config self)) 18 then s
                   else dict_get (cfg_max_zoom (config self)) 18 - z)
           \<and> z + s' \<le> dict_get (cfg_max_zoom (config self)) 18"
  using assms by (simp add: validate_zoom_level_def Let_def)

theorem validate_zoom_level_clamps_witness:
  "dict_get (cfg_min_zoom (config (client ''Esri.Terrain''))) 0 \<le> 10
   \<and> 10 \<le> dict_get (cfg_max_zoom (config (client ''Esri.Terrain''))) 18
   \<and> (0::int) \<le> 5
   \<and> (\<exists>ws. validate_zoom_level (client ''Esri.Terrain'') 10 5 = Inr ((13, 3), ws))"
  using validate_zoom_level_clamps [of "client ''Esri.Terrain''" 10 5]
  by (simp add: dict_get_def client_Esri_Terrain)

text \<open>
  C2. The validator raises its zoom-out-of-range \<open>ValueError\<close> exactly when the base zoom
  is outside the provider's bounds, whatever the supersample; an in-range base zoom never
  raises, also when \<open>z + s\<close> exceeds the maximum.
\<close>

theorem validate_zoom_level_error_iff:
  "((\<exists>e. validate_zoom_level self z s = Inl e \<and> is_zoom_out_of_range e)
      = (z < dict_get (cfg_min_zoom (config self)) 0
         \<or> dict_get (cfg_max_zoom (config self)) 18 < z))
   \<and> ((\<exists>r. validate_zoom_level self z s = Inr r)
      = (dict_get (cfg_min_zoom (config self)) 0 \<le> z
         \<and> z \<le> dict_get (cfg_max_zoom (config self)) 18))"
  by (auto simp add: validate_zoom_level_def Let_def)

subsection \<open>Credentials\<close>

text \<open>
  C3, as the specification states it, fails: a client of a provider that requires a key,
  built with no key and none in the environment, fetches a tile and gets the image when
  the server answers 200. No credential is checked at fetch time.
\<close>

theorem fetch_without_credential_counterexample:
  "RasterTileServer_init (demo_world 512 (\<lambda>url. False)) ''Stadia.StamenTerrain'' None
     = Inr (client ''Stadia.StamenTerrain'',
            [UserWarning_api_key ''Stadia.StamenTerrain'' ''STADIA_API_KEY''])
   \<and> cfg_requires_api_key (config (client ''Stadia.StamenTerrain''))
   \<and> api_key (client ''Stadia.StamenTerrain'') = None
   \<and> fetch_tile (demo_world 512 (\<lambda>url. False)) (client ''Stadia.StamenTerrain'') 0 0 0
     = Inr (white_tile 512)"
proof -
  have "RasterTileServer_init (demo_world 512 (\<lambda>url. False)) ''Stadia.StamenTerrain'' None
     = Inr (client ''Stadia.StamenTerrain'',
            [UserWarning_api_key ''Stadia.StamenTerrain'' ''STADIA_API_KEY''])"
    by (simp add: RasterTileServer_init_def BaseTileServer_init_def demo_world_def client_def
        PROVIDERS_def truthy_def py_or_def Let_def)
  moreover have "fetch_tile (demo_world 512 (\<lambda>url. False)) (client ''Stadia.StamenTerrain'') 0 0 0
     = Inr (white_tile 512)"
    by (simp add: fetch_tile_def build_tile_url_Stadia_0_0_0 demo_world_def)
       (simp add: client_Stadia truthy_def)
  ultimately show ?thesis by (simp add: client_Stadia)
qed

text \<open>
  C3, amended. For a registered provider that requires a credential, construction succeeds
  and emits at most one warning. When no credential was resolved, \<open>fetch_tile\<close> checks
  nothing: the URL is the template formatted with an empty credential, and the outcome is
  the transport's: the decoded (and post-processed) image on status 200, the fetch-failed
  \<open>Exception\<close> with the status and the URL otherwise.
\<close>

theorem credential_not_checked_at_fetch:
  assumes av: "Image_available W"
    and reg: "map_of PROVIDERS prov = Some cfg"
    and req: "cfg_requires_api_key cfg"
  shows "\<exists>self ws. RasterTileServer_init W prov key = Inr (self, ws)
           \<and> length ws \<le> 1 \<and> provider self = prov \<and> config self = cfg
           \<and> (\<not> truthy (api_key self) \<longrightarrow>
                (\<forall>z x y.
                   build_tile_url self z x y =
                     format (dict_get (cfg_url_template cfg) '''')
                       [(''z'', str_int z), (''x'', str_int x), (''y'', str_int y),
                        (''api_key'', '''')]
                 \<and> (\<forall>url. build_tile_url self z x y = Inr url \<longrightarrow>
                       fetch_tile W self z x y =
                         (case requests_get W url of
                            Inl e \<Rightarrow> Inl e
                          | Inr response \<Rightarrow>
                              if fst response = 200
                              then map_sum id
                                     (\<lambda>img. if truthy (cfg_special_handling cfg)
                                             then apply_special_handling self img else img)
                                     (Image_open W (snd response))
                              else Inl (Exception_fetch_failed prov (fst response) url)))))"
proof -
  have "\<exists>self ws. RasterTileServer_init W prov key = Inr (self, ws)
           \<and> length ws \<le> 1 \<and> provider self = prov \<and> config self = cfg"
    using av reg req
    by (simp add: RasterTileServer_init_def BaseTileServer_init_def Let_def)
  then obtain self ws where i: "RasterTileServer_init W prov key = Inr (self, ws)"
    and w: "length ws \<le> 1" and p: "provider self = prov" and c: "config self = cfg"
    by blast
  have u: "build_tile_url self z x y =
             format (dict_get (cfg_url_template cfg) '''')
               [(''z'', str_int z), (''x'', str_int x), (''y'', str_int y), (''api_key'', '''')]"
    if "\<not> truthy (api_key self)" for z x y
    using that c by (simp add: build_tile_url_def get_url_template_def py_or_def Let_def)
  have f: "fetch_tile W self z x y =
             (case requests_get W url of
                Inl e \<Rightarrow> Inl e
              | Inr response \<Rightarrow>
                  if fst response = 200
                  then map_sum id
                         (\<lambda>img. if truthy (cfg_special_handling cfg)
                                 then apply_special_handling self img else img)
                         (Image_open W (snd response))
                  else Inl (Exception_fetch_failed prov (fst response) url))"
    if "build_tile_url self z x y = Inr url" for z x y url
    using that c p by (simp add: fetch_tile_def split: sum.splits)
  show ?thesis using i w p c u f by blast
qed

theorem credential_not_checked_at_fetch_witness:
  "Image_available (demo_world 512 (\<lambda>url. False))
   \<and> cfg_requires_api_key (the (map_of PROVIDERS ''Stadia.StamenTerrain''))
   \<and> (\<exists>self ws. RasterTileServer_init (demo_world 512 (\<lambda>url. False)) ''Stadia.StamenTerrain'' None
                    = Inr (self, ws)
          \<and> \<not> truthy (api_key self)
          \<and> build_tile_url self 0 0 0
               = Inr ''https://tiles.stadiamaps.com/tiles/stamen_terrain/0/0/0@2x.png?api_key=''
          \<and> fetch_tile (demo_world 512 (\<lambda>url. False)) self 0 0 0 = Inr (white_tile 512))"
proof -
  let ?W = "demo_world 512 (\<lambda>url. False)"
  have av: "Image_available ?W" by (simp add: demo_world_def)
  have reg: "map_of PROVIDERS ''Stadia.StamenTerrain'' = Some (config (client ''Stadia.StamenTerrain''))"
    by (simp add: client_Stadia) (simp add: PROVIDERS_def)
  have req: "cfg_requires_api_key (config (client ''Stadia.StamenTerrain''))"
    by (simp add: client_Stadia)
  have init: "RasterTileServer_init ?W ''Stadia.StamenTerrain'' None
     = Inr (client ''Stadia.StamenTerrain'',
            [UserWarning_api_key ''Stadia.StamenTerrain'' ''STADIA_API_KEY''])"
    by (simp add: RasterTileServer_init_def BaseTileServer_init_def demo_world_def client_def
        PROVIDERS_def truthy_def py_or_def Let_def)
  from credential_not_checked_at_fetch [OF av reg req, of None] init
  have "\<not> truthy (api_key (client ''Stadia.StamenTerrain'')) \<longrightarrow>
          (\<forall>url. build_tile_url (client ''Stadia.StamenTerrain'') 0 0 0 = Inr url \<longrightarrow>
             fetch_tile ?W (client ''Stadia.StamenTerrain'') 0 0 0 =
               (case requests_get ?W url of
                  Inl e \<Rightarrow> Inl e
                | Inr response \<Rightarrow>
                    if fst response = 200
                    then map_sum id
                           (\<lambda>img. if truthy (cfg_special_handling (config (client ''Stadia.StamenTerrain'')))
                                   then apply_special_handling (client ''Stadia.StamenTerrain'') img else img)
                           (Image_open ?W (snd response))
                    else Inl (Exception_fetch_failed ''Stadia.StamenTerrain'' (fst response) url)))"
    by auto
  moreover have nt: "\<not> truthy (api_key (client ''Stadia.StamenTerrain''))"
    by (simp add: client_Stadia truthy_def)
  ultimately have "fetch_tile ?W (client ''Stadia.StamenTerrain'') 0 0 0 = Inr (white_tile 512)"
    using build_tile_url_Stadia_0_0_0
    by (simp add: demo_world_def) (simp add: client_Stadia truthy_def)
  then show ?thesis using av reg req init nt build_tile_url_Stadia_0_0_0 by simp
qed

subsection \<open>Bounds for the Mercator formula\<close>


















subsection \<open>Tile indices\<close>







subsection \<open>Chroma key\<close>

lemma black_to_transparent_map:
  "black_to_transparent datas new_data =
     new_data @ map (\<lambda>(r, g, b, a). if r = 0 \<and> g = 0 \<and> b = 0 then (0, 0, 0, 0) else (r, g, b, a)) datas"
  by (induction datas arbitrary: new_data) (auto split: prod.splits)

text \<open>
  C6. Under the \<open>make_black_transparent\<close> directive every pixel whose red, green and blue
  are all exactly 0 becomes \<open>(0, 0, 0, 0)\<close> and every other pixel keeps its RGBA value: the
  test is equality on the three channels, so \<open>(1, 1, 1)\<close> stays opaque.
\<close>

theorem make_black_transparent_exact:
  assumes "cfg_special_handling (config self) = Some ''make_black_transparent''"
  shows "apply_special_handling self img =
           img\<lparr>im_mode := ''RGBA'',
               im_data := map (\<lambda>(r, g, b, a). if r = 0 \<and> g = 0 \<and> b = 0 then (0, 0, 0, 0)
                                               else (r, g, b, a)) (im_data img)\<rparr>"
  using assms
  by (simp add: apply_special_handling_def Let_def convert_RGBA_def getdata_def putdata_def
      black_to_transparent_map)

theorem make_black_transparent_exact_witness:
  "cfg_special_handling (config (client ''Esri.Hydro'')) = Some ''make_black_transparent''
   \<and> apply_special_handling (client ''Esri.Hydro'')
       \<lparr>im_mode = ''RGB'', im_size = (3, 1),
        im_data = [(0, 0, 0, 255), (255, 255, 255, 255), (1, 1, 1, 255)]\<rparr>
     = \<lparr>im_mode = ''RGBA'', im_size = (3, 1),
        im_data = [(0, 0, 0, 0), (255, 255, 255, 255), (1, 1, 1, 255)]\<rparr>"
proof -
  have h: "cfg_special_handling (config (client ''Esri.Hydro'')) = Some ''make_black_transparent''"
    by (simp add: client_Esri_Hydro)
  show ?thesis
    using h make_black_transparent_exact [OF h,
        of "\<lparr>im_mode = ''RGB'', im_size = (3, 1),
             im_data = [(0, 0, 0, 255), (255, 255, 255, 255), (1, 1, 1, 255)]\<rparr>"]
    by simp
qed

subsection \<open>The compositor\<close>

text \<open>
  C7. For a grid with no row or an empty first row, \<open>combine_tiles\<close> returns one blank,
  fully transparent image of \<open>tile_size \<times> tile_size\<close>. For a non-empty rectangular grid it
  returns an RGBA image of \<open>(cols * tile_size) \<times> (rows * tile_size)\<close> pixels, and when the
  tiles have the edge \<open>tile_size\<close> the pixel \<open>(i, j)\<close> of the tile in row \<open>r\<close>, column \<open>c\<close>
  is the pixel \<open>(c * tile_size + i, r * tile_size + j)\<close> of the result, unblended.
\<close>

theorem combine_tiles_canvas:
  "(tiles = [] \<or> hd tiles = [] \<longrightarrow>
      combine_tiles tiles ts = Inr (Image_new_RGBA (ts, ts))
      \<and> im_size (Image_new_RGBA (ts, ts)) = (ts, ts)
      \<and> (\<forall>p\<in>set (im_data (Image_new_RGBA (ts, ts))). p = (0, 0, 0, 0)))
   \<and> (tiles \<noteq> [] \<and> hd tiles \<noteq> [] \<and> (\<forall>row\<in>set tiles. length row = length (hd tiles)) \<longrightarrow>
        (\<exists>out. combine_tiles tiles ts = Inr out
           \<and> im_mode out = ''RGBA''
           \<and> im_size out = (length (hd tiles) * ts, length tiles * ts)
           \<and> length (im_data out) = (length (hd tiles) * ts) * (length tiles * ts)
           \<and> ((\<forall>row\<in>set tiles. \<forall>t\<in>set row. im_size t = (ts, ts)) \<longrightarrow>
               (\<forall>r<length tiles. \<forall>c<length (hd tiles). \<forall>i<ts. \<forall>j<ts.
                  getpixel out (c * ts + i, r * ts + j) = getpixel (tiles ! r ! c) (i, j)))))"
proof (intro conjI impI)
  assume d: "tiles = [] \<or> hd tiles = []"
  then have "tiles = [] \<or> tiles ! 0 = []" by (cases tiles) auto
  then show "combine_tiles tiles ts = Inr (Image_new_RGBA (ts, ts))"
    by (auto simp add: combine_tiles_def Let_def)
  show "im_size (Image_new_RGBA (ts, ts)) = (ts, ts)" by simp
  show "\<forall>p\<in>set (im_data (Image_new_RGBA (ts, ts))). p = (0, 0, 0, 0)"
    by (simp add: Image_new_RGBA_def)
next
  assume g: "tiles \<noteq> [] \<and> hd tiles \<noteq> [] \<and> (\<forall>row\<in>set tiles. length row = length (hd tiles))"
  have rect: "\<forall>row\<in>set tiles. length (hd tiles) \<le> length row"
  proof
    fix row
    assume "row \<in> set tiles"
    with g have "length row = length (hd tiles)" by blast
    then show "length (hd tiles) \<le> length row" by simp
  qed
  from g have t1: "tiles \<noteq> []" and t2: "hd tiles \<noteq> []" by simp_all
  from combine_tiles_grid [OF t1 t2 rect, of ts] obtain out where
    o: "combine_tiles tiles ts = Inr out
           \<and> im_mode out = ''RGBA''
           \<and> im_size out = (length (hd tiles) * ts, length tiles * ts)
           \<and> wf_image out
           \<and> ((\<forall>row\<in>set tiles. \<forall>c<length (hd tiles). im_size (row ! c) = (ts, ts)) \<longrightarrow>
               (\<forall>r<length tiles. \<forall>c<length (hd tiles). \<forall>i<ts. \<forall>j<ts.
                  getpixel out (c * ts + i, r * ts + j) = getpixel (tiles ! r ! c) (i, j)))" ..
  note out = o [THEN conjunct1] o [THEN conjunct2, THEN conjunct1]
    o [THEN conjunct2, THEN conjunct2, THEN conjunct1]
    o [THEN conjunct2, THEN conjunct2, THEN conjunct2, THEN conjunct1]
    o [THEN conjunct2, THEN conjunct2, THEN conjunct2, THEN conjunct2]
  have sz: "\<forall>row\<in>set tiles. \<forall>c<length (hd tiles). im_size (row ! c) = (ts, ts)"
    if "\<forall>row\<in>set tiles. \<forall>t\<in>set row. im_size t = (ts, ts)"
  proof (intro ballI allI impI)
    fix row c
    assume "row \<in> set tiles" "c < length (hd tiles)"
    moreover from this g have "length row = length (hd tiles)" by blast
    moreover from calculation have "row ! c \<in> set row" by simp
    ultimately show "im_size (row ! c) = (ts, ts)" using that by blast
  qed
  show "\<exists>out. combine_tiles tiles ts = Inr out
           \<and> im_mode out = ''RGBA''
           \<and> im_size out = (length (hd tiles) * ts, length tiles * ts)
           \<and> length (im_data out) = (length (hd tiles) * ts) * (length tiles * ts)
           \<and> ((\<forall>row\<in>set tiles. \<forall>t\<in>set row. im_size t = (ts, ts)) \<longrightarrow>
               (\<forall>r<length tiles. \<forall>c<length (hd tiles). \<forall>i<ts. \<forall>j<ts.
                  getpixel out (c * ts + i, r * ts + j) = getpixel (tiles ! r ! c) (i, j)))"
  proof (intro exI conjI impI)
    show "combine_tiles tiles ts = Inr out" by (rule out(1))
    show "im_mode out = ''RGBA''" by (rule out(2))
    show "im_size out = (length (hd tiles) * ts, length tiles * ts)" by (rule out(3))
    show "length (im_data out) = (length (hd tiles) * ts) * (length tiles * ts)"
      using out(3,4) by (simp add: wf_image_def)
    assume "\<forall>row\<in>set tiles. \<forall>t\<in>set row. im_size t = (ts, ts)"
    from out(5) [THEN mp, OF sz [OF this]]
    show "\<forall>r<length tiles. \<forall>c<length (hd tiles). \<forall>i<ts. \<forall>j<ts.
            getpixel out (c * ts + i, r * ts + j) = getpixel (tiles ! r ! c) (i, j)" .
  qed
qed

theorem combine_tiles_canvas_witness:
  "combine_tiles [] 256 = Inr (Image_new_RGBA (256, 256))
   \<and> (\<exists>out. combine_tiles [ [white_tile 256, white_tile 256], [white_tile 256, white_tile 256] ] 256
               = Inr out
          \<and> im_size out = (512, 512)
          \<and> getpixel out (256, 0) = (255, 255, 255, 255))"
proof -
  let ?tiles = "[ [white_tile 256, white_tile 256], [white_tile 256, white_tile 256] ]"
  have a: "combine_tiles [] 256 = Inr (Image_new_RGBA (256, 256))"
    using combine_tiles_canvas [of "[]" 256, THEN conjunct1] by simp
  have t: "?tiles \<noteq> [] \<and> hd ?tiles \<noteq> [] \<and> (\<forall>row\<in>set ?tiles. length row = length (hd ?tiles))"
    by simp
  have s: "\<forall>row\<in>set ?tiles. \<forall>t\<in>set row. im_size t = (256, 256)" by simp
  from combine_tiles_canvas [of ?tiles 256, THEN conjunct2, THEN mp, OF t] obtain out where
    o: "combine_tiles ?tiles 256 = Inr out"
      "im_size out = (length (hd ?tiles) * 256, length ?tiles * 256)"
      "(\<forall>row\<in>set ?tiles. \<forall>t\<in>set row. im_size t = (256, 256)) \<longrightarrow>
         (\<forall>r<length ?tiles. \<forall>c<length (hd ?tiles). \<forall>i<256. \<forall>j<256.
            getpixel out (c * 256 + i, r * 256 + j) = getpixel (?tiles ! r ! c) (i, j))"
    by blast
  from o(3) [THEN mp, OF s, rule_format, of 0 1 0 0]
  have "getpixel out (256, 0) = getpixel (white_tile 256) (0, 0)" by simp
  then have "getpixel out (256, 0) = (255, 255, 255, 255)"
    by (simp add: getpixel_white)
  moreover have "im_size out = (512, 512)" using o(2) by simp
  ultimately show ?thesis using a o(1) by blast
qed

subsection \<open>Supersampling an extent\<close>

lemma lanczos_filter: "get_resample_filter W ''lanczos'' = Inr f \<Longrightarrow> f = LANCZOS"
  by (auto simp add: get_resample_filter_def filters_def dict_get_def lower_def lower_char_def
      split: if_splits)

text \<open>
  C8. When \<open>fetch_tiles_for_extent\<close> returns and the effective supersample is positive, the
  image returned is the composite resized with the Lanczos filter, whatever the
  \<open>resample_method\<close> argument, to \<open>(x_max - x_min + 1) * tile_size\<close> by
  \<open>(y_max - y_min + 1) * tile_size\<close>, the tile range being the one of the requested zoom;
  with PIL's contract for \<open>resize\<close> it has exactly that size.
\<close>

theorem supersample_downsample_target:
  assumes v: "validate_zoom_level self zoom_level supersample = Inr ((fetch_zoom, s'), ws)"
    and pos: "0 < s'"
    and r: "fetch_tiles_for_extent W self extent zoom_level supersample resample' resample_method
              = Inr (out, ws')"
  shows "\<exists>x_min y_min x_max y_max tiles a composite.
           extent_to_tile_indices extent zoom_level = Inr (x_min, y_min, x_max, y_max)
         \<and> combine_tiles tiles a = Inr composite
         \<and> Image_resize W composite
               ((x_max - x_min + 1) * int (tile_size self),
                (y_max - y_min + 1) * int (tile_size self)) LANCZOS = Inr out
         \<and> (resize_contract W \<longrightarrow>
               im_size out = (nat ((x_max - x_min + 1) * int (tile_size self)),
                              nat ((y_max - y_min + 1) * int (tile_size self))))"
proof -
  from r v pos obtain tiles a composite x0 y0 x1 y1 f where
    c: "combine_tiles tiles a = Inr composite"
    and e: "extent_to_tile_indices extent zoom_level = Inr (x0, y0, x1, y1)"
    and f: "get_resample_filter W ''lanczos'' = Inr f"
    and rs: "Image_resize W composite
               ((x1 - x0 + 1) * int (tile_size self), (y1 - y0 + 1) * int (tile_size self)) f
             = Inr out"
    unfolding fetch_tiles_for_extent_def Let_def
    by (simp split: sum.splits prod.splits)
  from lanczos_filter [OF f] rs have rs': "Image_resize W composite
               ((x1 - x0 + 1) * int (tile_size self), (y1 - y0 + 1) * int (tile_size self)) LANCZOS
             = Inr out" by simp
  have "resize_contract W \<longrightarrow>
               im_size out = (nat ((x1 - x0 + 1) * int (tile_size self)),
                              nat ((y1 - y0 + 1) * int (tile_size self)))"
    using rs' unfolding resize_contract_def by blast
  with c e rs' show ?thesis by blast
qed

theorem supersample_downsample_target_witness:
  "validate_zoom_level (client ''Esri.Terrain'') 0 1 = Inr ((1, 1), [])
   \<and> extent_to_tile_indices (-1, 1, 0, 0) 1 = Inr (0, 1, 1, 1)
   \<and> extent_to_tile_indices (-1, 1, 0, 0) 0 = Inr (0, 0, 0, 0)
   \<and> resize_contract (demo_world 256 (\<lambda>url. False))
   \<and> (\<exists>out ws. fetch_tiles_for_extent (demo_world 256 (\<lambda>url. False)) (client ''Esri.Terrain'')
                    (-1, 1, 0, 0) 0 1 True ''nearest'' = Inr (out, ws)
          \<and> im_size out = (256, 256))"
proof -
  let ?W = "demo_world 256 (\<lambda>url. False)"
  let ?self = "client ''Esri.Terrain''"
  let ?tiles = "[ [white_tile 256, white_tile 256] ]"
  have v: "validate_zoom_level ?self 0 1 = Inr ((1, 1), [])"
    by (simp add: validate_zoom_level_def client_Esri_Terrain dict_get_def)
  have e1: "extent_to_tile_indices (-1, 1, 0, 0) 1 = Inr (0, 1, 1, 1)"
    by (simp add: extent_to_tile_indices_def lonlat_equator py_int_def)
  have e0: "extent_to_tile_indices (-1, 1, 0, 0) 0 = Inr (0, 0, 0, 0)"
    by (simp add: extent_to_tile_indices_def lonlat_equator py_int_def)
  have t: "traverse (\<lambda>y. traverse (\<lambda>x. fetch_tile ?W ?self 1 x y) [0..1]) [1..1] = Inr ?tiles"
    by (simp add: upto.simps fetch_tile_demo_up build_tile_url_Esri)
  have "?tiles \<noteq> []" "hd ?tiles \<noteq> []" "\<forall>row\<in>set ?tiles. length (hd ?tiles) \<le> length row"
    by simp_all
  from combine_tiles_grid [OF this, of 256] obtain composite where
    c: "combine_tiles ?tiles 256 = Inr composite" by blast
  have ts: "tile_size ?self = 256" by (simp add: client_Esri_Terrain)
  have f: "get_resample_filter ?W ''lanczos'' = Inr LANCZOS"
    by (simp add: get_resample_filter_def demo_world_def filters_def dict_get_def lower_def
        lower_char_def)
  have rs: "Image_resize ?W composite (256, 256) LANCZOS = Inr (resize_nearest composite (256, 256))"
    by (simp add: demo_world_def)
  have r: "fetch_tiles_for_extent ?W ?self (-1, 1, 0, 0) 0 1 True ''nearest''
             = Inr (resize_nearest composite (256, 256), [])"
    unfolding fetch_tiles_for_extent_def
    by (simp add: v e1 e0 upto.simps fetch_tile_demo_up build_tile_url_Esri c ts f rs)
  have rc: "resize_contract ?W" by (rule resize_contract_demo)
  from supersample_downsample_target [OF v _ r] rc e0 ts
  have "im_size (resize_nearest composite (256, 256)) = (256, 256)" by auto
  with v e1 e0 rc r show ?thesis by blast
qed

subsection \<open>The lazy tile source\<close>

lemma upto_nth: "k < nat (j - i + 1) \<Longrightarrow> [i..j] ! k = i + int k"
  by (simp add: nth_upto)

lemma fetch_sub_tile_size:
  assumes "\<forall>t. fetch_tile W parent fz fx fy = Inr t \<longrightarrow> im_size t = (tile_size parent, tile_size parent)"
  shows "im_size (fetch_sub_tile W parent fz fx fy) = (tile_size parent, tile_size parent)"
  using assms by (auto simp add: fetch_sub_tile_def convert_RGBA_def split: sum.splits)

lemma fetch_sub_tile_pixel:
  assumes "i < tile_size parent" "j < tile_size parent"
  shows "getpixel (fetch_sub_tile W parent fz fx fy) (i, j) =
           (case fetch_tile W parent fz fx fy of Inl e \<Rightarrow> (0, 0, 0, 0) | Inr t \<Rightarrow> getpixel t (i, j))"
proof (cases "fetch_tile W parent fz fx fy")
  case (Inl e)
  then show ?thesis using assms by (simp add: fetch_sub_tile_def getpixel_new)
next
  case (Inr t)
  then show ?thesis by (simp add: fetch_sub_tile_def getpixel_def convert_RGBA_def)
qed

text \<open>
  C9. On the supersampling path of \<open>get_image\<close> no sub-tile fetch error propagates,
  whatever the fetches do: the call returns the composite resized to \<open>tile_size\<close> square
  (with the filter of the source) whenever \<open>resize\<close> and the parent's \<open>get_image\<close>
  return, and the image returned has that size. When the fetched tiles have the provider's
  tile size, the composite is \<open>n * tile_size\<close> square (\<open>n = 2 ^ actual_supersample\<close>),
  the region of a sub-tile whose fetch raised is fully transparent and the region of every
  other sub-tile holds that sub-tile.
\<close>

theorem get_image_subtile_failure_is_blank:
  assumes s: "0 < src_supersample src"
    and mz: "mz = dict_get (cfg_max_zoom (config (parent_instance src))) 18"
    and z: "z < mz"
    and a: "a = (if z + src_supersample src > mz then mz - z else src_supersample src)"
    and n: "n = 2 ^ nat a"
    and ts: "ts = tile_size (parent_instance src)"
  shows "\<exists>composite.
           get_image W src (x, y, z) =
              (case Image_resize W composite (int ts, int ts) (src_resample_filter src) of
                 Inl e \<Rightarrow> Inl e
               | Inr out \<Rightarrow>
                   (case GoogleTiles_get_image W (x, y, z) of
                      Inr (img, extent, origin) \<Rightarrow> Inr (out, extent, origin)
                    | Inl e \<Rightarrow> Inl AttributeError))
         \<and> (resize_contract W \<longrightarrow>
              (\<forall>out extent origin. get_image W src (x, y, z) = Inr (out, extent, origin)
                 \<longrightarrow> im_size out = (ts, ts)))
         \<and> ((\<forall>fx fy t. fetch_tile W (parent_instance src) (z + a) fx fy = Inr t
                 \<longrightarrow> im_size t = (ts, ts)) \<longrightarrow>
              im_size composite = (n * ts, n * ts)
              \<and> (\<forall>dx<n. \<forall>dy<n. \<forall>i<ts. \<forall>j<ts.
                   getpixel composite (dx * ts + i, dy * ts + j) =
                     (case fetch_tile W (parent_instance src) (z + a)
                             (x * int n + int dx) (y * int n + int dy) of
                        Inl e \<Rightarrow> (0, 0, 0, 0)
                      | Inr t \<Rightarrow> getpixel t (i, j))))"
proof -
  let ?p = "parent_instance src"
  let ?scale = "(2::int) ^ nat a"
  let ?sub = "\<lambda>dx dy. fetch_sub_tile W ?p (z + a) (x * ?scale + dx) (y * ?scale + dy)"
  let ?tiles = "map (\<lambda>dy. map (\<lambda>dx. ?sub dx dy) [0..?scale - 1]) [0..?scale - 1]"
  let ?ats = "fst (im_size (?sub 0 0))"
  have apos: "0 < a" using s z a by (simp split: if_splits)
  have sc: "int n = ?scale" using n by simp
  have npos: "0 < n" using n by simp
  have len: "length [0..?scale - 1] = n" using n by simp
  have nth: "[0..?scale - 1] ! k = int k" if "k < n" for k
    using that upto_nth [of k "?scale - 1" 0] sc by simp
  have ne: "[0..?scale - 1] \<noteq> []" using len npos by auto
  have hd0: "hd [0..?scale - 1] = 0" using nth [of 0] npos ne by (simp add: hd_conv_nth)
  have tne: "?tiles \<noteq> []" "hd ?tiles \<noteq> []" using ne by (simp_all add: hd_map)
  have hdlen: "length (hd ?tiles) = n" using ne len by (simp add: hd_map)
  have hdhd: "hd (hd ?tiles) = ?sub 0 0" using ne hd0 by (simp add: hd_map)
  have rect: "\<forall>row\<in>set ?tiles. length (hd ?tiles) \<le> length row"
    using hdlen len by auto
  from combine_tiles_grid [OF tne rect, of ?ats] obtain composite where
    o: "combine_tiles ?tiles ?ats = Inr composite
        \<and> im_mode composite = ''RGBA''
        \<and> im_size composite = (length (hd ?tiles) * ?ats, length ?tiles * ?ats)
        \<and> wf_image composite
        \<and> ((\<forall>row\<in>set ?tiles. \<forall>c<length (hd ?tiles). im_size (row ! c) = (?ats, ?ats)) \<longrightarrow>
            (\<forall>r<length ?tiles. \<forall>c<length (hd ?tiles). \<forall>i<?ats. \<forall>j<?ats.
               getpixel composite (c * ?ats + i, r * ?ats + j) = getpixel (?tiles ! r ! c) (i, j)))" ..
  note comp = o [THEN conjunct1]
    o [THEN conjunct2, THEN conjunct2, THEN conjunct1]
    o [THEN conjunct2, THEN conjunct2, THEN conjunct2, THEN conjunct2]
  have first: "(case ?tiles of (t # _) # _ \<Rightarrow> combine_tiles ?tiles (fst (im_size t))
                | _ \<Rightarrow> Inr (Image_new_RGBA (ts, ts))) = Inr composite"
  proof -
    obtain row rest where t1: "?tiles = row # rest" using tne(1) by (cases ?tiles) auto
    then have h: "hd ?tiles = row" by simp
    with tne(2) have "row \<noteq> []" by simp
    then obtain t rest' where t2: "row = t # rest'" by (cases row) auto
    with h hdhd have "t = ?sub 0 0" by simp
    then show ?thesis using t1 t2 comp(1) by simp
  qed
  have gi: "get_image W src (x, y, z) =
              (case Image_resize W composite (int ts, int ts) (src_resample_filter src) of
                 Inl e \<Rightarrow> Inl e
               | Inr out \<Rightarrow>
                   (case GoogleTiles_get_image W (x, y, z) of
                      Inr (img, extent, origin) \<Rightarrow> Inr (out, extent, origin)
                    | Inl e \<Rightarrow> Inl AttributeError))"
  proof -
    let ?mz = "dict_get (cfg_max_zoom (config ?p)) 18"
    have a': "(if ?mz < z + src_supersample src then ?mz - z else src_supersample src) = a"
      using a mz by simp
    have fz': "(if ?mz < z + src_supersample src then ?mz else z + src_supersample src) = z + a"
      using a mz by simp
    have ts': "tile_size ?p = ts" using ts by simp
    have s': "\<not> src_supersample src \<le> 0" "\<not> a \<le> 0" using s apos by simp_all
    show ?thesis
      unfolding get_image_def Let_def prod.case a' fz' ts'
      by (simp only: s' if_False first sum.case
            BaseTileServer_calculate_tile_extent_web_mercator_def)
  qed
  have sz: "resize_contract W \<longrightarrow>
          (\<forall>out extent origin. get_image W src (x, y, z) = Inr (out, extent, origin)
             \<longrightarrow> im_size out = (ts, ts))"
    unfolding gi resize_contract_def
    by (auto split: sum.splits prod.splits)
  have geo: "im_size composite = (n * ts, n * ts)
              \<and> (\<forall>dx<n. \<forall>dy<n. \<forall>i<ts. \<forall>j<ts.
                   getpixel composite (dx * ts + i, dy * ts + j) =
                     (case fetch_tile W ?p (z + a) (x * int n + int dx) (y * int n + int dy) of
                        Inl e \<Rightarrow> (0, 0, 0, 0)
                      | Inr t \<Rightarrow> getpixel t (i, j)))"
    if sizes: "\<forall>fx fy t. fetch_tile W ?p (z + a) fx fy = Inr t \<longrightarrow> im_size t = (ts, ts)"
  proof -
    have subsz: "im_size (?sub dx dy) = (ts, ts)" for dx dy
      using fetch_sub_tile_size [of W ?p "z + a"] sizes ts by simp
    have ats: "?ats = ts" using subsz [of 0 0] by simp
    have allsz: "\<forall>row\<in>set ?tiles. \<forall>c<length (hd ?tiles). im_size (row ! c) = (?ats, ?ats)"
      unfolding ats using hdlen len subsz by auto
    note px0 = comp(3) [THEN mp, OF allsz, unfolded ats]
    have size: "im_size composite = (n * ts, n * ts)" using comp(2) hdlen len ats by simp
    have px: "getpixel composite (dx * ts + i, dy * ts + j) =
                (case fetch_tile W ?p (z + a) (x * int n + int dx) (y * int n + int dy) of
                   Inl e \<Rightarrow> (0, 0, 0, 0) | Inr t \<Rightarrow> getpixel t (i, j))"
      if b: "dx < n" "dy < n" "i < ts" "j < ts" for dx dy i j
    proof -
      have "?tiles ! dy ! dx = ?sub (int dx) (int dy)"
        using b len nth by simp
      moreover have "getpixel composite (dx * ts + i, dy * ts + j) = getpixel (?tiles ! dy ! dx) (i, j)"
        using px0 b hdlen len by simp
      ultimately show ?thesis
        using fetch_sub_tile_pixel [of i ?p j W "z + a"] b ts sc by simp
    qed
    show ?thesis using size px by blast
  qed
  show ?thesis using gi sz geo by blast
qed

theorem get_image_subtile_failure_is_blank_witness:
  "get_cartopy_source (demo_world 256 one_down) (client ''Esri.Terrain'') 1 ''lanczos''
     = Inr demo_source
   \<and> fetch_tile (demo_world 256 one_down) (client ''Esri.Terrain'') 1 1 0
     = Inl (Exception_fetch_failed ''Esri.Terrain'' 404
         ''https://server.arcgisonline.com/ArcGIS/rest/services/World_Terrain_Base/MapServer/tile/1/0/1'')
   \<and> (\<exists>composite. im_size composite = (512, 512)
          \<and> getpixel composite (256, 0) = (0, 0, 0, 0)
          \<and> getpixel composite (0, 0) = (255, 255, 255, 255)
          \<and> (\<exists>out. get_image (demo_world 256 one_down) demo_source (0, 0, 0)
                       = Inr (out, (0, 1, 0, 1), ''lower'')
                 \<and> im_size out = (256, 256)))"
proof -
  let ?W = "demo_world 256 one_down"
  let ?p = "client ''Esri.Terrain''"
  have src: "get_cartopy_source ?W ?p 1 ''lanczos'' = Inr demo_source"
    by (simp add: get_cartopy_source_def get_resample_filter_def demo_world_def filters_def
        dict_get_def lower_def lower_char_def demo_source_def)
  have pi: "parent_instance demo_source = ?p" by (simp add: demo_source_def)
  have down: "fetch_tile ?W ?p 1 1 0 = Inl (Exception_fetch_failed ''Esri.Terrain'' 404
         ''https://server.arcgisonline.com/ArcGIS/rest/services/World_Terrain_Base/MapServer/tile/1/0/1'')"
    by (simp add: fetch_tile_def build_tile_url_Esri str_int_def digits_of.simps demo_world_def
        one_down_def)
       (simp add: client_Esri_Terrain)
  have up: "fetch_tile ?W ?p 1 0 0 = Inr (white_tile 256)"
    by (simp add: fetch_tile_def build_tile_url_Esri str_int_def digits_of.simps demo_world_def
        one_down_def)
       (simp add: client_Esri_Terrain truthy_def)
  have s: "0 < src_supersample demo_source" by (simp add: demo_source_def)
  have mz: "(13::int) = dict_get (cfg_max_zoom (config (parent_instance demo_source))) 18"
    by (simp add: demo_source_def client_Esri_Terrain dict_get_def)
  have a: "(1::int) = (if 0 + src_supersample demo_source > 13 then 13 - 0
                       else src_supersample demo_source)"
    by (simp add: demo_source_def)
  have n: "(2::nat) = 2 ^ nat 1" by simp
  have ts: "(256::nat) = tile_size (parent_instance demo_source)"
    by (simp add: demo_source_def client_Esri_Terrain)
  have zlt: "(0::int) < 13" by simp
  have sizes: "\<forall>fx fy t. fetch_tile ?W (parent_instance demo_source) (0 + 1) fx fy = Inr t
                  \<longrightarrow> im_size t = (256, 256)"
    using fetch_tile_demo_size by blast
  from get_image_subtile_failure_is_blank [OF s mz zlt a n ts, of ?W 0 0]
  obtain composite where
    o: "get_image ?W demo_source (0, 0, 0) =
          (case Image_resize ?W composite (int 256, int 256) (src_resample_filter demo_source) of
             Inl e \<Rightarrow> Inl e
           | Inr out \<Rightarrow>
               (case GoogleTiles_get_image ?W (0, 0, 0) of
                  Inr (img, extent, origin) \<Rightarrow> Inr (out, extent, origin)
                | Inl e \<Rightarrow> Inl AttributeError))
      \<and> (resize_contract ?W \<longrightarrow>
          (\<forall>out extent origin. get_image ?W demo_source (0, 0, 0) = Inr (out, extent, origin)
             \<longrightarrow> im_size out = (256, 256)))
      \<and> ((\<forall>fx fy t. fetch_tile ?W (parent_instance demo_source) (0 + 1) fx fy = Inr t
                 \<longrightarrow> im_size t = (256, 256)) \<longrightarrow>
          im_size composite = (2 * 256, 2 * 256)
          \<and> (\<forall>dx<2. \<forall>dy<2. \<forall>i<256. \<forall>j<256.
               getpixel composite (dx * 256 + i, dy * 256 + j) =
                 (case fetch_tile ?W (parent_instance demo_source) (0 + 1)
                         (0 * int 2 + int dx) (0 * int 2 + int dy) of
                    Inl e \<Rightarrow> (0, 0, 0, 0)
                  | Inr t \<Rightarrow> getpixel t (i, j))))" ..
  note geo = o [THEN conjunct2, THEN conjunct2, THEN mp, OF sizes]
  note c = geo [THEN conjunct1] geo [THEN conjunct2] o [THEN conjunct1]
    o [THEN conjunct2, THEN conjunct1]
  from c(2) [rule_format, of 1 0 0 0] down pi
  have p1: "getpixel composite (256, 0) = (0, 0, 0, 0)" by simp
  from c(2) [rule_format, of 0 0 0 0] up pi
  have p0: "getpixel composite (0, 0) = (255, 255, 255, 255)" by (simp add: getpixel_white)
  have g: "get_image ?W demo_source (0, 0, 0)
             = Inr (resize_nearest composite (256, 256), (0, 1, 0, 1), ''lower'')"
    unfolding c(3) by (simp add: demo_world_def)
  from c(4) [THEN mp, OF resize_contract_demo, rule_format, OF g]
  have "im_size (resize_nearest composite (256, 256)) = (256, 256)" .
  with src down c(1) p1 p0 g show ?thesis by auto
qed

subsection \<open>Resampling filters by name\<close>

lemma fetch_tiles_for_extent_filter_cong:
  assumes "get_resample_filter W m = get_resample_filter W m'"
  shows "fetch_tiles_for_extent W self extent z s r m = fetch_tiles_for_extent W self extent z s r m'"
  unfolding fetch_tiles_for_extent_def assms by (rule refl)

text \<open>
  C10. With Pillow imported, \<open>_get_resample_filter\<close> returns for every string: the filter
  named by the lower-cased string for \<open>lanczos\<close>, \<open>bicubic\<close>, \<open>bilinear\<close> and
  \<open>nearest\<close>, Lanczos for any other; an unrecognised \<open>resample_method\<close> makes
  \<open>fetch_tiles_for_extent\<close> behave as with \<open>'lanczos'\<close>.
\<close>

theorem get_resample_filter_total:
  assumes "Image_available W"
  shows "get_resample_filter W method =
           Inr (if lower method = ''lanczos'' then LANCZOS
                else if lower method = ''bicubic'' then BICUBIC
                else if lower method = ''bilinear'' then BILINEAR
                else if lower method = ''nearest'' then NEAREST
                else LANCZOS)
         \<and> (lower method \<notin> {''lanczos'', ''bicubic'', ''bilinear'', ''nearest''} \<longrightarrow>
              fetch_tiles_for_extent W self extent z s r method
                = fetch_tiles_for_extent W self extent z s r ''lanczos'')"
proof -
  have g: "get_resample_filter W m =
           Inr (if lower m = ''lanczos'' then LANCZOS
                else if lower m = ''bicubic'' then BICUBIC
                else if lower m = ''bilinear'' then BILINEAR
                else if lower m = ''nearest'' then NEAREST
                else LANCZOS)" for m
    using assms by (simp add: get_resample_filter_def filters_def dict_get_def)
  have l: "lower ''lanczos'' = ''lanczos''" by (simp add: lower_def lower_char_def)
  have "get_resample_filter W method = get_resample_filter W ''lanczos''"
    if "lower method \<notin> {''lanczos'', ''bicubic'', ''bilinear'', ''nearest''}"
    using that by (simp add: g l)
  then show ?thesis using g [of "method"] fetch_tiles_for_extent_filter_cong by blast
qed

theorem get_resample_filter_total_witness:
  "Image_available (demo_world 256 (\<lambda>url. False))
   \<and> get_resample_filter (demo_world 256 (\<lambda>url. False)) ''BiCubic'' = Inr BICUBIC
   \<and> get_resample_filter (demo_world 256 (\<lambda>url. False)) ''hamming'' = Inr LANCZOS
   \<and> fetch_tiles_for_extent (demo_world 256 (\<lambda>url. False)) (client ''Esri.Terrain'')
        (-1, 1, 0, 0) 0 0 True ''hamming''
      = fetch_tiles_for_extent (demo_world 256 (\<lambda>url. False)) (client ''Esri.Terrain'')
        (-1, 1, 0, 0) 0 0 True ''lanczos''"
proof -
  let ?W = "demo_world 256 (\<lambda>url. False)"
  have av: "Image_available ?W" by (simp add: demo_world_def)
  have l: "lower ''BiCubic'' = ''bicubic''" "lower ''hamming'' = ''hamming''"
    by (simp_all add: lower_def lower_char_def)
  have "get_resample_filter ?W ''BiCubic'' = Inr BICUBIC"
    using get_resample_filter_total [OF av, of "''BiCubic''"] by (simp add: l)
  moreover have "get_resample_filter ?W ''hamming'' = Inr LANCZOS
    \<and> fetch_tiles_for_extent ?W (client ''Esri.Terrain'') (-1, 1, 0, 0) 0 0 True ''hamming''
      = fetch_tiles_for_extent ?W (client ''Esri.Terrain'') (-1, 1, 0, 0) 0 0 True ''lanczos''"
    using get_resample_filter_total [OF av, of "''hamming''" "client ''Esri.Terrain''"
        "(-1, 1, 0, 0)" 0 0 True]
    by (simp add: l)
  ultimately show ?thesis using av by simp
qed

end
